theory Spec2Isabelle
  imports Complex_Main
begin

section \<open>Scheduling and task execution of seldom-platform (Go backend)\<close>

text \<open>
  The development embeds the task runner (\<^verbatim>\<open>services.TaskService\<close>), the scheduling
  coordinator (\<^verbatim>\<open>services.SchedulerService\<close>) and the cron validator
  (\<^verbatim>\<open>utils.IsValidCronExpression\<close>) as HOL functions over an explicit world state.

  Conventions.
  \<^item> A Go \<^verbatim>\<open>string\<close> is the list of its UTF-8 bytes; the non-ASCII literals of the
    source are written out byte by byte.
  \<^item> Go \<^verbatim>\<open>uint\<close> identifiers are \<open>nat\<close>, Go \<^verbatim>\<open>int\<close> is \<open>int\<close>; a
    \<^verbatim>\<open>time.Time\<close> is an \<open>int\<close> of nanoseconds, a \<^verbatim>\<open>time.Duration\<close> an \<open>int\<close> of
    nanoseconds: the difference of two times saturates and a sum of durations wraps
    around at 64 bits, as in Go.
  \<^item> A \<^verbatim>\<open>float64\<close> is a \<open>real\<close>: the arithmetic of the services on it is exact, rounding
    is not modelled. The one result that hangs on the rounding, the fraction read by
    \<^verbatim>\<open>time.ParseDuration\<close>, is computed on 53-bit significands as the library does.
  \<^item> Fields of a struct keep their Go names behind a prefix naming the struct
    (\<open>task_Status\<close> is \<^verbatim>\<open>TestTask.Status\<close>); association fields that only a preload
    fills (\<^verbatim>\<open>Project\<close>, \<^verbatim>\<open>Task\<close>, \<^verbatim>\<open>Case\<close>, \<^verbatim>\<open>Result\<close>) are left out.
\<close>

subsection \<open>Functions of the Go standard library used by the services\<close>

subsubsection \<open>Decimal output: the verb \<^verbatim>\<open>%d\<close>\<close>

definition digit_char :: "nat \<Rightarrow> char" where
  "digit_char d = char_of (48 + d)"

fun digits :: "nat \<Rightarrow> string" where
  "digits n = (if n < 10 then [digit_char n] else digits (n div 10) @ [digit_char (n mod 10)])"

declare digits.simps [simp del]

definition Sprintf_d :: "int \<Rightarrow> string" where
  "Sprintf_d i = (if i < 0 then CHR ''-'' # digits (nat (- i)) else digits (nat i))"

subsubsection \<open>\<^verbatim>\<open>strings.Fields\<close>\<close>

text \<open>
  \<^verbatim>\<open>strings.Fields\<close> splits a string around each run of white space as
  \<^verbatim>\<open>unicode.IsSpace\<close> defines it and returns the non-empty pieces. White space is one of
  the six ASCII bytes below, or the UTF-8 encoding of U+0085, U+00A0, U+1680,
  U+2000..U+200A, U+2028, U+2029, U+202F, U+205F, U+3000. \<open>space_width s\<close> is the number of
  bytes of the white-space rune at the head of \<open>s\<close>, and 0 when there is none. Every such
  encoding starts with an ASCII byte or a lead byte, which no preceding rune can swallow,
  so scanning byte by byte meets the same white-space runes as decoding rune by rune.
\<close>

definition asciiSpace :: "char \<Rightarrow> bool" where
  "asciiSpace c \<longleftrightarrow>
     c = CHR 0x09 \<or> c = CHR 0x0A \<or> c = CHR 0x0B \<or> c = CHR 0x0C \<or> c = CHR 0x0D \<or> c = CHR 0x20"

fun space_width :: "string \<Rightarrow> nat" where
  "space_width [] = 0"
| "space_width (c # cs) =
     (if asciiSpace c then 1
      else if c = CHR 0xC2 \<and> (take 1 cs = [CHR 0x85] \<or> take 1 cs = [CHR 0xA0]) then 2
      else if c = CHR 0xE1 \<and> take 2 cs = [CHR 0x9A, CHR 0x80] then 3
      else if c = CHR 0xE2 \<and> take 1 cs = [CHR 0x80] \<and>
              (case drop 1 cs of
                 [] \<Rightarrow> False
               | d # _ \<Rightarrow> ((0x80::nat) \<le> of_char d \<and> (of_char d :: nat) \<le> 0x8A)
                          \<or> d = CHR 0xA8 \<or> d = CHR 0xA9 \<or> d = CHR 0xAF) then 3
      else if c = CHR 0xE2 \<and> take 2 cs = [CHR 0x81, CHR 0x9F] then 3
      else if c = CHR 0xE3 \<and> take 2 cs = [CHR 0x80, CHR 0x80] then 3
      else 0)"

definition flush :: "string \<Rightarrow> string list" where
  "flush cur = (if cur = [] then [] else [cur])"

text \<open>\<open>Fields_from cur s\<close>: the fields of \<open>s\<close> when \<open>cur\<close> holds the bytes of the field
  being read (empty when the scan is between fields).\<close>

fun Fields_from :: "string \<Rightarrow> string \<Rightarrow> string list" where
  "Fields_from cur [] = flush cur"
| "Fields_from cur (c # cs) =
     (case space_width (c # cs) of
        0 \<Rightarrow> Fields_from (cur @ [c]) cs
      | Suc k \<Rightarrow> flush cur @ Fields_from [] (drop k cs))"

definition Fields :: "string \<Rightarrow> string list" where
  "Fields s = Fields_from [] s"

subsubsection \<open>Package \<^verbatim>\<open>time\<close>: durations\<close>

text \<open>
  The unit constants, the saturating \<^verbatim>\<open>Time.Sub\<close>, \<^verbatim>\<open>Duration.Seconds\<close>, the printed form
  \<^verbatim>\<open>Duration.String\<close> (what \<^verbatim>\<open>%v\<close> shows) and \<^verbatim>\<open>time.ParseDuration\<close>. A sum of
  durations wraps around in 64 bits (\<open>wrap64\<close>).
\<close>

definition Nanosecond :: nat where "Nanosecond = 1"
definition Microsecond :: nat where "Microsecond = 1000 * Nanosecond"
definition Millisecond :: nat where "Millisecond = 1000 * Microsecond"
definition Second :: nat where "Second = 1000 * Millisecond"
definition Minute :: nat where "Minute = 60 * Second"
definition Hour :: nat where "Hour = 60 * Minute"

definition minDuration :: int where "minDuration = - (2 ^ 63)"
definition maxDuration :: int where "maxDuration = 2 ^ 63 - 1"

definition wrap64 :: "int \<Rightarrow> int" where
  "wrap64 x = (x + 2 ^ 63) mod 2 ^ 64 - 2 ^ 63"

definition Time_Sub :: "int \<Rightarrow> int \<Rightarrow> int" where
  "Time_Sub t u = (let d = t - u in if d < minDuration then minDuration else if d > maxDuration then maxDuration else d)"

definition Duration_Seconds :: "int \<Rightarrow> real" where
  "Duration_Seconds d = real_of_int d / 1000000000"

fun fmtFrac :: "nat \<Rightarrow> nat \<Rightarrow> bool \<Rightarrow> string \<Rightarrow> string \<times> nat" where
  "fmtFrac 0 v print buf = ((if print then CHR ''.'' # buf else buf), v)"
| "fmtFrac (Suc i) v print buf =
     (let digit = v mod 10; print' = (print \<or> digit \<noteq> 0)
      in fmtFrac i (v div 10) print' (if print' then digit_char digit # buf else buf))"

definition Duration_String :: "int \<Rightarrow> string" where
  "Duration_String d =
     (let u = nat \<bar>d\<bar>; neg = (d < 0);
          body =
            (if u < Second then
               (if u = 0 then ''0s''
                else if u < Microsecond then
                  (case fmtFrac 0 u False ''ns'' of (buf, v) \<Rightarrow> digits v @ buf)
                else if u < Millisecond then
                  (case fmtFrac 3 u False ([CHR 0xC2, CHR 0xB5] @ ''s'') of (buf, v) \<Rightarrow> digits v @ buf)
                else
                  (case fmtFrac 6 u False ''ms'' of (buf, v) \<Rightarrow> digits v @ buf))
             else
               (case fmtFrac 9 u False ''s'' of (buf, v) \<Rightarrow>
                  (let sec = digits (v mod 60) @ buf; m = v div 60
                   in if m > 0 then
                        (let mins = digits (m mod 60) @ ''m'' @ sec; h = m div 60
                         in if h > 0 then digits h @ ''h'' @ mins else mins)
                      else sec)))
      in if neg then CHR ''-'' # body else body)"


text \<open>
  \<^verbatim>\<open>time.ParseDuration\<close> reads an optional sign and then one or more groups
  \<^verbatim>\<open>[0-9]*(\.[0-9]*)?[a-z]+\<close>. \<open>leadingInt\<close> and \<open>leadingFraction\<close> compute the values of
  the digit runs with the library's overflow guards; the rest of the string behind a digit
  run is \<open>dropWhile isDigit\<close>. \<open>parse_unit\<close> is one round of the library's loop and yields
  the group's value in nanoseconds and the unread rest.

  The fraction \<^verbatim>\<open>f\<close> of a group, read with \<^verbatim>\<open>scale\<close> a power of ten, adds
  \<^verbatim>\<open>uint64(float64(f) * (float64(unit) / scale))\<close> nanoseconds. A positive \<^verbatim>\<open>float64\<close> is
  written here as a pair \<open>(m, e)\<close> standing for \<open>m * 2 ^ e\<close>. \<open>round_quot p q e\<close> is the
  \<^verbatim>\<open>float64\<close> nearest to \<open>p / q * 2 ^ e\<close>, a tie going to the even significand: the quotient
  is taken with at least 54 bits, the bits behind the 53rd and the remainder decide the
  direction. The conversion of an integer, the quotient and the product of two
  \<^verbatim>\<open>float64\<close> are instances of it. The range of the exponent is not modelled: \<^verbatim>\<open>f\<close> is at
  most \<open>2 ^ 63\<close>, \<^verbatim>\<open>scale\<close> at most \<open>10 ^ 19\<close> (both powers of ten up to there are
  \<^verbatim>\<open>float64\<close> values) and \<^verbatim>\<open>unit\<close> at most an hour.
\<close>

fun bit_length :: "nat \<Rightarrow> nat" where
  "bit_length n = (if n = 0 then 0 else Suc (bit_length (n div 2)))"

declare bit_length.simps [simp del]

definition round_quot :: "nat \<Rightarrow> nat \<Rightarrow> int \<Rightarrow> nat \<times> int" where
  "round_quot p q e =
     (if p = 0 then (0, 0)
      else
        (let s = (bit_length q + 54) - bit_length p;
             t = (p * 2 ^ s) div q;
             sticky = ((p * 2 ^ s) mod q \<noteq> 0);
             k = bit_length t - 53;
             hi = t div 2 ^ k;
             lo = t mod 2 ^ k;
             half = 2 ^ (k - 1);
             up = (lo > half \<or> (lo = half \<and> (sticky \<or> odd hi)))
         in (if up then hi + 1 else hi, e + int k - int s)))"

definition float64_of_uint64 :: "nat \<Rightarrow> nat \<times> int" where
  "float64_of_uint64 n = round_quot n 1 0"

definition float64_div :: "nat \<times> int \<Rightarrow> nat \<times> int \<Rightarrow> nat \<times> int" where
  "float64_div a b = round_quot (fst a) (fst b) (snd a - snd b)"

definition float64_mul :: "nat \<times> int \<Rightarrow> nat \<times> int \<Rightarrow> nat \<times> int" where
  "float64_mul a b = round_quot (fst a * fst b) 1 (snd a + snd b)"

text \<open>The conversion back drops the digits behind the point.\<close>

definition uint64_of_float64 :: "nat \<times> int \<Rightarrow> nat" where
  "uint64_of_float64 a =
     (if snd a \<ge> 0 then fst a * 2 ^ nat (snd a) else fst a div 2 ^ nat (- snd a))"

definition fraction_nanoseconds :: "nat \<Rightarrow> nat \<Rightarrow> nat \<Rightarrow> nat" where
  "fraction_nanoseconds f unit scale =
     uint64_of_float64
       (float64_mul (float64_of_uint64 f)
                    (float64_div (float64_of_uint64 unit) (float64_of_uint64 scale)))"

definition isDigit :: "char \<Rightarrow> bool" where
  "isDigit c \<longleftrightarrow> (48::nat) \<le> of_char c \<and> (of_char c :: nat) \<le> 57"
definition notDigitDot :: "char \<Rightarrow> bool" where
  "notDigitDot c \<longleftrightarrow> \<not> (c = CHR ''.'' \<or> isDigit c)"

definition digit_val :: "char \<Rightarrow> nat" where
  "digit_val c = of_char c - 48"

fun leadingInt :: "nat \<Rightarrow> string \<Rightarrow> nat option" where
  "leadingInt x [] = Some x"
| "leadingInt x (c # cs) =
     (if \<not> isDigit c then Some x
      else if x > 2 ^ 63 div 10 then None
      else (let x' = x * 10 + digit_val c
            in if x' > 2 ^ 63 then None else leadingInt x' cs))"

fun leadingFraction :: "nat \<Rightarrow> nat \<Rightarrow> bool \<Rightarrow> string \<Rightarrow> nat \<times> nat" where
  "leadingFraction x scale overflow [] = (x, scale)"
| "leadingFraction x scale overflow (c # cs) =
     (if \<not> isDigit c then (x, scale)
      else if overflow then leadingFraction x scale overflow cs
      else if x > (2 ^ 63 - 1) div 10 then leadingFraction x scale True cs
      else (let y = x * 10 + digit_val c
            in if y > 2 ^ 63 then leadingFraction x scale True cs
               else leadingFraction y (scale * 10) overflow cs))"

definition unitMap :: "string \<Rightarrow> nat option" where
  "unitMap u =
     (if u = ''ns'' then Some Nanosecond
      else if u = ''us'' then Some Microsecond
      else if u = [CHR 0xC2, CHR 0xB5] @ ''s'' then Some Microsecond
      else if u = [CHR 0xCE, CHR 0xBC] @ ''s'' then Some Microsecond
      else if u = ''ms'' then Some Millisecond
      else if u = ''s'' then Some Second
      else if u = ''m'' then Some Minute
      else if u = ''h'' then Some Hour
      else None)"

definition parse_unit :: "string \<Rightarrow> (nat \<times> string) option" where
  "parse_unit s =
     (if \<not> (hd s = CHR ''.'' \<or> isDigit (hd s)) then None
      else
        (case leadingInt 0 s of
           None \<Rightarrow> None
         | Some v \<Rightarrow>
            (let s1 = dropWhile isDigit s;
                 pre = (length s \<noteq> length s1);
                 dot = (s1 \<noteq> [] \<and> hd s1 = CHR ''.'');
                 s2 = (if dot then tl s1 else s1);
                 fr = (if dot then leadingFraction 0 1 False s2 else (0, 1));
                 s3 = (if dot then dropWhile isDigit s2 else s2);
                 post = (dot \<and> length s2 \<noteq> length s3);
                 u = takeWhile notDigitDot s3;
                 s4 = dropWhile notDigitDot s3
             in if \<not> pre \<and> \<not> post then None
                else if u = [] then None
                else
                  (case unitMap u of
                     None \<Rightarrow> None
                   | Some unit \<Rightarrow>
                      if v > 2 ^ 63 div unit then None
                      else
                        (let v1 = v * unit;
                             v2 = (if fst fr > 0
                                   then v1 + fraction_nanoseconds (fst fr) unit (snd fr) else v1)
                         in if fst fr > 0 \<and> v2 > 2 ^ 63 then None
                            else Some (v2, s4))))))"

function parse_units :: "nat \<Rightarrow> string \<Rightarrow> nat option" where
  "parse_units d s =
     (if s = [] then Some d
      else
        (case parse_unit s of
           None \<Rightarrow> None
         | Some (v, rest) \<Rightarrow>
            (let d' = (d + v) mod 2 ^ 64
             in if d' > 2 ^ 63 then None else parse_units d' rest)))"
  by pat_completeness auto
termination
proof (relation "measure (\<lambda>(d, s). length s)", goal_cases)
  case 1
  show ?case by simp
next
  case (2 d s x v rest d')
  have dw: "length (dropWhile isDigit xs) \<le> length xs" for xs
    by (simp add: length_dropWhile_le)
  have tw: "length (dropWhile notDigitDot xs) < length xs" if "takeWhile notDigitDot xs \<noteq> []" for xs
  proof -
    have "length (takeWhile notDigitDot xs) + length (dropWhile notDigitDot xs) = length xs"
      by (metis length_append takeWhile_dropWhile_id)
    with that show ?thesis by (cases "takeWhile notDigitDot xs") auto
  qed
  have tl_le: "length (tl xs) \<le> length xs" for xs :: string
    by simp
  define s1 where "s1 = dropWhile isDigit s"
  define dot where "dot = (s1 \<noteq> [] \<and> hd s1 = CHR ''.'')"
  define s2 where "s2 = (if dot then tl s1 else s1)"
  define s3 where "s3 = (if dot then dropWhile isDigit s2 else s2)"
  from 2 have ps: "parse_unit s = Some (v, rest)" by simp
  then have "takeWhile notDigitDot s3 \<noteq> [] \<and> rest = dropWhile notDigitDot s3"
    unfolding parse_unit_def s1_def dot_def s2_def s3_def
    by (auto simp: Let_def split: if_splits option.splits)
  then have "length rest < length s3" using tw by blast
  moreover have "length s3 \<le> length s2" unfolding s3_def using dw by simp
  moreover have "length s2 \<le> length s1" unfolding s2_def by simp
  moreover have "length s1 \<le> length s" unfolding s1_def using dw by simp
  ultimately show ?case by simp
qed

declare parse_units.simps [simp del]

definition ParseDuration :: "string \<Rightarrow> int option" where
  "ParseDuration orig =
     (let neg = (orig \<noteq> [] \<and> hd orig = CHR ''-'');
          s = (if orig \<noteq> [] \<and> (hd orig = CHR ''-'' \<or> hd orig = CHR ''+'') then tl orig else orig)
      in if s = ''0'' then Some 0
         else if s = [] then None
         else
           (case parse_units 0 s of
              None \<Rightarrow> None
            | Some d \<Rightarrow>
               if neg then Some (- int d)
               else if d > 2 ^ 63 - 1 then None
               else Some (int d)))"


subsubsection \<open>The verb \<^verbatim>\<open>%.2f\<close>\<close>

text \<open>Two decimals, the exact value rounded to the nearest hundredth, ties to even.\<close>

definition Sprintf_2f :: "real \<Rightarrow> string" where
  "Sprintf_2f x =
     (let a = \<bar>x\<bar> * 100; f = \<lfloor>a\<rfloor>;
          c = (if a - of_int f < 1 / 2 then f
               else if a - of_int f > 1 / 2 then f + 1
               else if even f then f else f + 1);
          n = nat c
      in (if x < 0 then ''-'' else []) @ digits (n div 100) @ ''.''
           @ [digit_char (n div 10 mod 10), digit_char (n mod 10)])"

subsection \<open>\<^verbatim>\<open>utils.IsValidCronExpression\<close>\<close>

definition IsValidCronExpression :: "string \<Rightarrow> bool" where
  "IsValidCronExpression cron =
     (if cron = [] then True
      else (let parts = Fields cron in length parts = 6 \<or> length parts = 5))"

text \<open>
  The reading of the specification: an expression is valid when it is empty or has exactly
  five or six fields, a field being a maximal run of bytes that are not white space.
  \<open>count_fields was s\<close> counts the places of \<open>s\<close> where such a run starts; \<open>was\<close> tells
  whether the scan stands at the start of the string or just behind white space.
\<close>

fun count_fields :: "bool \<Rightarrow> string \<Rightarrow> nat" where
  "count_fields was [] = 0"
| "count_fields was (c # cs) =
     (case space_width (c # cs) of
        0 \<Rightarrow> (if was then 1 else 0) + count_fields False cs
      | Suc k \<Rightarrow> count_fields True (drop k cs))"

definition Validate_spec :: "string \<Rightarrow> bool" where
  "Validate_spec expr \<longleftrightarrow>
     expr = [] \<or> count_fields True expr = 5 \<or> count_fields True expr = 6"

subsection \<open>The data model (package \<^verbatim>\<open>models\<close> and the transient results)\<close>

record TestTask =
  task_ID :: nat
  task_ProjectID :: nat
  task_Name :: string
  task_Status :: int
  task_EnvID :: "nat option"
  task_TeamID :: "nat option"
  task_Email :: string
  task_Timed :: string
  task_IsScheduled :: bool
  task_CronExpression :: string
  task_ExecuteCount :: int
  task_IsDelete :: bool
  task_CreateTime :: int
  task_UpdateTime :: int

record TaskCaseRelevance =
  rel_ID :: nat
  rel_TaskID :: nat
  rel_CaseHash :: string
  rel_CreateTime :: int

record TestCase =
  tc_ID :: nat
  tc_ProjectID :: nat
  tc_FileName :: string
  tc_ClassName :: string
  tc_ClassDoc :: string
  tc_CaseName :: string
  tc_CaseDoc :: string
  tc_Label :: string
  tc_Status :: int
  tc_CaseHash :: string
  tc_CreateTime :: int
  tc_UpdateTime :: int

record CaseResult =
  cr_ID :: nat
  cr_CaseID :: nat
  cr_Name :: string
  cr_Report :: string
  cr_Passed :: int
  cr_Error :: int
  cr_Failure :: int
  cr_Skipped :: int
  cr_Tests :: int
  cr_SystemOut :: string
  cr_RunTime :: real
  cr_CreateTime :: int

record TaskReport =
  rep_ID :: nat
  rep_TaskID :: nat
  rep_Name :: string
  rep_Report :: string
  rep_Passed :: int
  rep_Error :: int
  rep_Failure :: int
  rep_Skipped :: int
  rep_Tests :: int
  rep_RunTime :: string
  rep_CreateTime :: int

record CaseExecutionResult =
  cer_CaseID :: nat
  cer_CaseName :: string
  cer_Status :: string
  cer_StartTime :: int
  cer_EndTime :: int
  cer_Duration :: int
  cer_ErrorMsg :: string
  cer_Screenshots :: "string list"
  cer_Logs :: "string list"

record TaskExecutionSummary =
  TotalCases :: int
  PassedCases :: int
  FailedCases :: int
  SkippedCases :: int
  PassRate :: real

record TaskExecutionResult =
  ter_TaskID :: nat
  ter_Status :: string
  ter_StartTime :: int
  ter_EndTime :: int
  ter_Duration :: int
  ter_Results :: "CaseExecutionResult list"
  ter_Summary :: TaskExecutionSummary
  ter_Error :: string

subsection \<open>The world: store, clock, logger, dispatched batches\<close>

text \<open>
  The services act on a database handle, the wall clock, the logger and the Go runtime
  (the \<^verbatim>\<open>go\<close> statement). The world holds
  \<^item> the five tables the services touch, each a list of rows;
  \<^item> \<open>clock\<close>, the value \<^verbatim>\<open>time.Now()\<close> returns, and \<open>lags\<close>, the time that passes on
    top of what the sleeps to come ask for: \<^verbatim>\<open>time.Sleep(d)\<close> pauses for at least \<open>d\<close>,
    and the \<open>n\<close>-th sleep from now lasts \<open>d\<close> and the \<open>n\<close>-th entry of \<open>lags\<close> more (nothing
    more when the list is exhausted). The lag stands for the latency of the scheduler and
    for the run time of the statements around the sleep, so that a duration measured around
    a sleep of \<open>d\<close> is \<open>d\<close> or any longer time, as chosen by \<open>lags\<close>;
  \<^item> \<open>faults\<close>, the fate of the database calls to come: the \<open>n\<close>-th call from now fails
    with the text \<open>e\<close> when the \<open>n\<close>-th entry is \<open>Some e\<close>, and reaches the tables when it is
    \<open>None\<close> or when the list is exhausted;
  \<^item> \<open>logged\<close>, the entries handed to the logger, in order;
  \<^item> \<open>dispatched\<close>, the task identifiers for which the scheduler has started a goroutine
    running \<^verbatim>\<open>ExecuteTask\<close>; the goroutine's body runs outside the dispatching call.
\<close>

datatype log_level = LInfo | LError

datatype log_value = VUint nat | VInt int | VString string

record log_entry =
  le_level :: log_level
  le_category :: string
  le_message :: string
  le_data :: "(string \<times> log_value) list"

record world =
  testtasks :: "TestTask list"
  taskcaserelevances :: "TaskCaseRelevance list"
  testcases :: "TestCase list"
  caseresults :: "CaseResult list"
  taskreports :: "TaskReport list"
  clock :: int
  lags :: "nat list"
  faults :: "string option list"
  logged :: "log_entry list"
  dispatched :: "nat list"

definition Logger_LogInfo :: "world \<Rightarrow> string \<Rightarrow> string \<Rightarrow> (string \<times> log_value) list \<Rightarrow> world" where
  "Logger_LogInfo w category message data =
     w\<lparr>logged := logged w @
          [\<lparr>le_level = LInfo, le_category = category, le_message = message, le_data = data\<rparr>]\<rparr>"

definition Logger_LogError :: "world \<Rightarrow> string \<Rightarrow> string \<Rightarrow> (string \<times> log_value) list \<Rightarrow> world" where
  "Logger_LogError w category message data =
     w\<lparr>logged := logged w @
          [\<lparr>le_level = LError, le_category = category, le_message = message, le_data = data\<rparr>]\<rparr>"

text \<open>The package-level \<^verbatim>\<open>utils.LogInfo(message, args...)\<close> has no category.\<close>

definition utils_LogInfo :: "world \<Rightarrow> string \<Rightarrow> (string \<times> log_value) list \<Rightarrow> world" where
  "utils_LogInfo w message data =
     w\<lparr>logged := logged w @
          [\<lparr>le_level = LInfo, le_category = [], le_message = message, le_data = data\<rparr>]\<rparr>"

text \<open>\<^verbatim>\<open>time.Sleep(d)\<close>: a duration that is negative or zero asks for no pause.\<close>

definition time_Sleep :: "world \<Rightarrow> int \<Rightarrow> world" where
  "time_Sleep w d =
     (case lags w of
        [] \<Rightarrow> w\<lparr>clock := clock w + max 0 d\<rparr>
      | lag # rest \<Rightarrow> w\<lparr>clock := clock w + max 0 d + int lag, lags := rest\<rparr>)"

subsubsection \<open>Database calls\<close>

text \<open>
  Every call first takes its fate from \<open>faults\<close>. \<^verbatim>\<open>First\<close> yields the matching row of least
  primary key or the error \<^verbatim>\<open>record not found\<close>; \<^verbatim>\<open>Save\<close> rewrites the row with the record's
  primary key (and inserts the record when no row has it); \<^verbatim>\<open>Create\<close> appends a row under a
  fresh primary key. The hooks of package \<^verbatim>\<open>models\<close> run with the call:
  \<^verbatim>\<open>BeforeUpdate\<close> stamps \<^verbatim>\<open>UpdateTime\<close>, \<^verbatim>\<open>BeforeCreate\<close> stamps \<^verbatim>\<open>CreateTime\<close> (and
  \<^verbatim>\<open>UpdateTime\<close> of a task).
\<close>

definition db_call :: "world \<Rightarrow> string option \<times> world" where
  "db_call w = (case faults w of [] \<Rightarrow> (None, w) | f # fs \<Rightarrow> (f, w\<lparr>faults := fs\<rparr>))"

definition ErrRecordNotFound :: string where
  "ErrRecordNotFound = ''record not found''"

fun first_by_pk :: "('a \<Rightarrow> nat) \<Rightarrow> 'a list \<Rightarrow> 'a option" where
  "first_by_pk pk [] = None"
| "first_by_pk pk (r # rs) =
     (case first_by_pk pk rs of
        None \<Rightarrow> Some r
      | Some m \<Rightarrow> if pk r \<le> pk m then Some r else Some m)"

definition next_pk :: "('a \<Rightarrow> nat) \<Rightarrow> 'a list \<Rightarrow> nat" where
  "next_pk pk rows = Suc (foldr (\<lambda>r m. max (pk r) m) rows 0)"

definition First_TestTask :: "world \<Rightarrow> nat \<Rightarrow> (string + TestTask) \<times> world" where
  "First_TestTask w taskID =
     (case db_call w of
        (Some e, w') \<Rightarrow> (Inl e, w')
      | (None, w') \<Rightarrow>
         (case first_by_pk task_ID (filter (\<lambda>t. task_ID t = taskID) (testtasks w')) of
            None \<Rightarrow> (Inl ErrRecordNotFound, w')
          | Some t \<Rightarrow> (Inr t, w')))"

definition Save_TestTask :: "world \<Rightarrow> TestTask \<Rightarrow> string option \<times> world" where
  "Save_TestTask w t =
     (case db_call w of
        (Some e, w') \<Rightarrow> (Some e, w')
      | (None, w') \<Rightarrow>
         (if task_ID t \<in> set (map task_ID (testtasks w'))
          then (None, w'\<lparr>testtasks :=
                  map (\<lambda>r. if task_ID r = task_ID t then t\<lparr>task_UpdateTime := clock w'\<rparr> else r)
                      (testtasks w')\<rparr>)
          else (None, w'\<lparr>testtasks := testtasks w' @
                  [t\<lparr>task_CreateTime := clock w', task_UpdateTime := clock w'\<rparr>]\<rparr>)))"

definition Find_TaskCaseRelevance :: "world \<Rightarrow> nat \<Rightarrow> (string + TaskCaseRelevance list) \<times> world" where
  "Find_TaskCaseRelevance w taskID =
     (case db_call w of
        (Some e, w') \<Rightarrow> (Inl e, w')
      | (None, w') \<Rightarrow> (Inr (filter (\<lambda>r. rel_TaskID r = taskID) (taskcaserelevances w')), w'))"

definition First_TestCase_by_hash :: "world \<Rightarrow> string \<Rightarrow> (string + TestCase) \<times> world" where
  "First_TestCase_by_hash w h =
     (case db_call w of
        (Some e, w') \<Rightarrow> (Inl e, w')
      | (None, w') \<Rightarrow>
         (case first_by_pk tc_ID (filter (\<lambda>c. tc_CaseHash c = h) (testcases w')) of
            None \<Rightarrow> (Inl ErrRecordNotFound, w')
          | Some c \<Rightarrow> (Inr c, w')))"

definition First_TestCase :: "world \<Rightarrow> nat \<Rightarrow> (string + TestCase) \<times> world" where
  "First_TestCase w caseID =
     (case db_call w of
        (Some e, w') \<Rightarrow> (Inl e, w')
      | (None, w') \<Rightarrow>
         (case first_by_pk tc_ID (filter (\<lambda>c. tc_ID c = caseID) (testcases w')) of
            None \<Rightarrow> (Inl ErrRecordNotFound, w')
          | Some c \<Rightarrow> (Inr c, w')))"

definition Create_CaseResult :: "world \<Rightarrow> CaseResult \<Rightarrow> string option \<times> world" where
  "Create_CaseResult w r =
     (case db_call w of
        (Some e, w') \<Rightarrow> (Some e, w')
      | (None, w') \<Rightarrow>
         (None, w'\<lparr>caseresults := caseresults w' @
                 [r\<lparr>cr_ID := next_pk cr_ID (caseresults w'), cr_CreateTime := clock w'\<rparr>]\<rparr>))"

definition Create_TaskReport :: "world \<Rightarrow> TaskReport \<Rightarrow> string option \<times> world" where
  "Create_TaskReport w r =
     (case db_call w of
        (Some e, w') \<Rightarrow> (Some e, w')
      | (None, w') \<Rightarrow>
         (None, w'\<lparr>taskreports := taskreports w' @
                 [r\<lparr>rep_ID := next_pk rep_ID (taskreports w'), rep_CreateTime := clock w'\<rparr>]\<rparr>))"

subsection \<open>The message texts of the services\<close>

text \<open>The Chinese literals of the source, as UTF-8 bytes; the comment gives the meaning.\<close>

definition msg_task_missing :: string where \<comment> \<open>task does not exist\<close>
  "msg_task_missing =
     [CHR 0xE4, CHR 0xBB, CHR 0xBB, CHR 0xE5, CHR 0x8A, CHR 0xA1, CHR 0xE4, CHR 0xB8,
      CHR 0x8D, CHR 0xE5, CHR 0xAD, CHR 0x98, CHR 0xE5, CHR 0x9C, CHR 0xA8] @ '': ''"

definition msg_task_started :: string where \<comment> \<open>task execution starts\<close>
  "msg_task_started =
     [CHR 0xE5, CHR 0xBC, CHR 0x80, CHR 0xE5, CHR 0xA7, CHR 0x8B, CHR 0xE6, CHR 0x89,
      CHR 0xA7, CHR 0xE8, CHR 0xA1, CHR 0x8C, CHR 0xE4, CHR 0xBB, CHR 0xBB, CHR 0xE5,
      CHR 0x8A, CHR 0xA1] @ '': ''"

definition msg_relevances_failed :: string where \<comment> \<open>fetching the cases of the task failed\<close>
  "msg_relevances_failed =
     [CHR 0xE8, CHR 0x8E, CHR 0xB7, CHR 0xE5, CHR 0x8F, CHR 0x96, CHR 0xE4, CHR 0xBB,
      CHR 0xBB, CHR 0xE5, CHR 0x8A, CHR 0xA1, CHR 0xE7, CHR 0x94, CHR 0xA8, CHR 0xE4,
      CHR 0xBE, CHR 0x8B, CHR 0xE5, CHR 0xA4, CHR 0xB1, CHR 0xE8, CHR 0xB4, CHR 0xA5] @ '': ''"

definition msg_case_missing :: string where \<comment> \<open>case does not exist\<close>
  "msg_case_missing =
     [CHR 0xE7, CHR 0x94, CHR 0xA8, CHR 0xE4, CHR 0xBE, CHR 0x8B, CHR 0xE4, CHR 0xB8,
      CHR 0x8D, CHR 0xE5, CHR 0xAD, CHR 0x98, CHR 0xE5, CHR 0x9C, CHR 0xA8] @ '': ''"

definition msg_task_finished :: string where \<comment> \<open>task execution finished\<close>
  "msg_task_finished =
     [CHR 0xE4, CHR 0xBB, CHR 0xBB, CHR 0xE5, CHR 0x8A, CHR 0xA1, CHR 0xE6, CHR 0x89,
      CHR 0xA7, CHR 0xE8, CHR 0xA1, CHR 0x8C, CHR 0xE5, CHR 0xAE, CHR 0x8C, CHR 0xE6,
      CHR 0x88, CHR 0x90] @ '': ''"

definition msg_case_fetch_failed :: string where \<comment> \<open>fetching the case failed\<close>
  "msg_case_fetch_failed =
     [CHR 0xE8, CHR 0x8E, CHR 0xB7, CHR 0xE5, CHR 0x8F, CHR 0x96, CHR 0xE7, CHR 0x94,
      CHR 0xA8, CHR 0xE4, CHR 0xBE, CHR 0x8B, CHR 0xE5, CHR 0xA4, CHR 0xB1, CHR 0xE8,
      CHR 0xB4, CHR 0xA5] @ '': ''"

definition msg_case_parse_failed :: string where \<comment> \<open>parsing the case data failed\<close>
  "msg_case_parse_failed =
     [CHR 0xE8, CHR 0xA7, CHR 0xA3, CHR 0xE6, CHR 0x9E, CHR 0x90, CHR 0xE7, CHR 0x94,
      CHR 0xA8, CHR 0xE4, CHR 0xBE, CHR 0x8B, CHR 0xE6, CHR 0x95, CHR 0xB0, CHR 0xE6,
      CHR 0x8D, CHR 0xAE, CHR 0xE5, CHR 0xA4, CHR 0xB1, CHR 0xE8, CHR 0xB4, CHR 0xA5] @ '': ''"

definition msg_save_case_failed :: string where \<comment> \<open>saving the case result failed\<close>
  "msg_save_case_failed =
     [CHR 0xE4, CHR 0xBF, CHR 0x9D, CHR 0xE5, CHR 0xAD, CHR 0x98, CHR 0xE7, CHR 0x94,
      CHR 0xA8, CHR 0xE4, CHR 0xBE, CHR 0x8B, CHR 0xE7, CHR 0xBB, CHR 0x93, CHR 0xE6,
      CHR 0x9E, CHR 0x9C, CHR 0xE5, CHR 0xA4, CHR 0xB1, CHR 0xE8, CHR 0xB4, CHR 0xA5] @ '': ''"

definition msg_save_report_failed :: string where \<comment> \<open>saving the task report failed\<close>
  "msg_save_report_failed =
     [CHR 0xE4, CHR 0xBF, CHR 0x9D, CHR 0xE5, CHR 0xAD, CHR 0x98, CHR 0xE4, CHR 0xBB,
      CHR 0xBB, CHR 0xE5, CHR 0x8A, CHR 0xA1, CHR 0xE6, CHR 0x8A, CHR 0xA5, CHR 0xE5,
      CHR 0x91, CHR 0x8A, CHR 0xE5, CHR 0xA4, CHR 0xB1, CHR 0xE8, CHR 0xB4, CHR 0xA5] @ '': ''"

definition msg_not_running :: string where \<comment> \<open>the task is not running\<close>
  "msg_not_running =
     [CHR 0xE4, CHR 0xBB, CHR 0xBB, CHR 0xE5, CHR 0x8A, CHR 0xA1, CHR 0xE6, CHR 0x9C,
      CHR 0xAA, CHR 0xE5, CHR 0x9C, CHR 0xA8, CHR 0xE8, CHR 0xBF, CHR 0x90, CHR 0xE8,
      CHR 0xA1, CHR 0x8C, CHR 0xE4, CHR 0xB8, CHR 0xAD]"

definition msg_update_failed :: string where \<comment> \<open>updating the task status failed\<close>
  "msg_update_failed =
     [CHR 0xE6, CHR 0x9B, CHR 0xB4, CHR 0xE6, CHR 0x96, CHR 0xB0, CHR 0xE4, CHR 0xBB,
      CHR 0xBB, CHR 0xE5, CHR 0x8A, CHR 0xA1, CHR 0xE7, CHR 0x8A, CHR 0xB6, CHR 0xE6,
      CHR 0x80, CHR 0x81, CHR 0xE5, CHR 0xA4, CHR 0xB1, CHR 0xE8, CHR 0xB4, CHR 0xA5] @ '': ''"

definition msg_task_stopped :: string where \<comment> \<open>task stopped\<close>
  "msg_task_stopped =
     [CHR 0xE4, CHR 0xBB, CHR 0xBB, CHR 0xE5, CHR 0x8A, CHR 0xA1, CHR 0xE5, CHR 0xB7,
      CHR 0xB2, CHR 0xE5, CHR 0x81, CHR 0x9C, CHR 0xE6, CHR 0xAD, CHR 0xA2] @ '': ''"

definition msg_due_started :: string where \<comment> \<open>scheduled task execution starts\<close>
  "msg_due_started =
     [CHR 0xE5, CHR 0xBC, CHR 0x80, CHR 0xE5, CHR 0xA7, CHR 0x8B, CHR 0xE6, CHR 0x89,
      CHR 0xA7, CHR 0xE8, CHR 0xA1, CHR 0x8C, CHR 0xE5, CHR 0xAE, CHR 0x9A, CHR 0xE6,
      CHR 0x97, CHR 0xB6, CHR 0xE4, CHR 0xBB, CHR 0xBB, CHR 0xE5, CHR 0x8A, CHR 0xA1] @ '': ''"

definition msg_status_failed :: string where \<comment> \<open>fetching the task status failed\<close>
  "msg_status_failed =
     [CHR 0xE8, CHR 0x8E, CHR 0xB7, CHR 0xE5, CHR 0x8F, CHR 0x96, CHR 0xE4, CHR 0xBB,
      CHR 0xBB, CHR 0xE5, CHR 0x8A, CHR 0xA1, CHR 0xE7, CHR 0x8A, CHR 0xB6, CHR 0xE6,
      CHR 0x80, CHR 0x81, CHR 0xE5, CHR 0xA4, CHR 0xB1, CHR 0xE8, CHR 0xB4, CHR 0xA5] @ '': ''"

definition msg_skip_prefix :: string where \<comment> \<open>task\<close>
  "msg_skip_prefix =
     [CHR 0xE4, CHR 0xBB, CHR 0xBB, CHR 0xE5, CHR 0x8A, CHR 0xA1] @ '' ''"

definition msg_skip_suffix :: string where \<comment> \<open>is already running, this execution is skipped\<close>
  "msg_skip_suffix =
     '' '' @ [CHR 0xE5, CHR 0xB7, CHR 0xB2, CHR 0xE5, CHR 0x9C, CHR 0xA8, CHR 0xE8, CHR 0xBF,
      CHR 0x90, CHR 0xE8, CHR 0xA1, CHR 0x8C, CHR 0xE4, CHR 0xB8, CHR 0xAD, CHR 0xEF,
      CHR 0xBC, CHR 0x8C, CHR 0xE8, CHR 0xB7, CHR 0xB3, CHR 0xE8, CHR 0xBF, CHR 0x87,
      CHR 0xE6, CHR 0x9C, CHR 0xAC, CHR 0xE6, CHR 0xAC, CHR 0xA1, CHR 0xE6, CHR 0x89,
      CHR 0xA7, CHR 0xE8, CHR 0xA1, CHR 0x8C]"

definition msg_due_failed :: string where \<comment> \<open>scheduled task execution failed\<close>
  "msg_due_failed =
     [CHR 0xE5, CHR 0xAE, CHR 0x9A, CHR 0xE6, CHR 0x97, CHR 0xB6, CHR 0xE4, CHR 0xBB,
      CHR 0xBB, CHR 0xE5, CHR 0x8A, CHR 0xA1, CHR 0xE6, CHR 0x89, CHR 0xA7, CHR 0xE8,
      CHR 0xA1, CHR 0x8C, CHR 0xE5, CHR 0xA4, CHR 0xB1, CHR 0xE8, CHR 0xB4, CHR 0xA5] @ '': ''"

definition msg_due_finished :: string where \<comment> \<open>scheduled task execution finished\<close>
  "msg_due_finished =
     [CHR 0xE5, CHR 0xAE, CHR 0x9A, CHR 0xE6, CHR 0x97, CHR 0xB6, CHR 0xE4, CHR 0xBB,
      CHR 0xBB, CHR 0xE5, CHR 0x8A, CHR 0xA1, CHR 0xE6, CHR 0x89, CHR 0xA7, CHR 0xE8,
      CHR 0xA1, CHR 0x8C, CHR 0xE5, CHR 0xAE, CHR 0x8C, CHR 0xE6, CHR 0x88, CHR 0x90] @ '': ''"

subsection \<open>\<^verbatim>\<open>services.TaskService\<close>\<close>

text \<open>
  \<^verbatim>\<open>json.Unmarshal\<close> into a \<^verbatim>\<open>map[string]interface{}\<close> is a parameter \<open>unmarshal\<close> of the
  runner: it takes the bytes of \<^verbatim>\<open>CaseDoc\<close> and yields the error text, or \<open>None\<close> when the
  document is accepted. The decoded map is not read again by the source.
\<close>

text \<open>\<^verbatim>\<open>runTestCase\<close>: sleeps 100 milliseconds (or longer, see \<open>lags\<close>) and reports
  success.\<close>

definition runTestCase :: "world \<Rightarrow> string option \<times> world" where
  "runTestCase w = (None, time_Sleep w (100 * int Millisecond))"

definition executeSingleCase :: "(string \<Rightarrow> string option) \<Rightarrow> world \<Rightarrow> nat \<Rightarrow> CaseExecutionResult \<times> world" where
  "executeSingleCase unmarshal w caseID =
     (let result = \<lparr>cer_CaseID = caseID, cer_CaseName = [], cer_Status = ''running'',
                     cer_StartTime = clock w, cer_EndTime = 0, cer_Duration = 0,
                     cer_ErrorMsg = [], cer_Screenshots = [], cer_Logs = []\<rparr>
      in case First_TestCase w caseID of
           (Inl err, w1) \<Rightarrow>
             (result\<lparr>cer_Status := ''failed'',
                     cer_ErrorMsg := msg_case_fetch_failed @ err,
                     cer_EndTime := clock w1,
                     cer_Duration := Time_Sub (clock w1) (cer_StartTime result)\<rparr>, w1)
         | (Inr testCase, w1) \<Rightarrow>
             (let result = result\<lparr>cer_CaseName := tc_CaseName testCase\<rparr>
              in case unmarshal (tc_CaseDoc testCase) of
                   Some err \<Rightarrow>
                     (result\<lparr>cer_Status := ''failed'',
                             cer_ErrorMsg := msg_case_parse_failed @ err,
                             cer_EndTime := clock w1,
                             cer_Duration := Time_Sub (clock w1) (cer_StartTime result)\<rparr>, w1)
                 | None \<Rightarrow>
                     (case runTestCase w1 of
                        (Some err, w2) \<Rightarrow>
                          (result\<lparr>cer_Status := ''failed'', cer_ErrorMsg := err,
                                  cer_EndTime := clock w2,
                                  cer_Duration := Time_Sub (clock w2) (cer_StartTime result)\<rparr>, w2)
                      | (None, w2) \<Rightarrow>
                          (result\<lparr>cer_Status := ''passed'',
                                  cer_EndTime := clock w2,
                                  cer_Duration := Time_Sub (clock w2) (cer_StartTime result)\<rparr>, w2))))"

definition saveCaseResult :: "world \<Rightarrow> nat \<Rightarrow> CaseExecutionResult \<Rightarrow> world" where
  "saveCaseResult w taskID result =
     (let caseResult =
            \<lparr>cr_ID = 0, cr_CaseID = cer_CaseID result, cr_Name = cer_CaseName result,
             cr_Report = ''Status: '' @ cer_Status result @ '', Duration: ''
                           @ Duration_String (cer_Duration result),
             cr_Passed = 0, cr_Error = 0, cr_Failure = 0, cr_Skipped = 0, cr_Tests = 0,
             cr_SystemOut = [], cr_RunTime = Duration_Seconds (cer_Duration result),
             cr_CreateTime = 0\<rparr>
      in case Create_CaseResult w caseResult of
           (Some err, w1) \<Rightarrow>
             Logger_LogError w1 ''SAVE_CASE_RESULT'' (msg_save_case_failed @ err)
               [(''task_id'', VUint taskID), (''case_id'', VUint (cer_CaseID result))]
         | (None, w1) \<Rightarrow> w1)"

definition saveTaskReport :: "world \<Rightarrow> nat \<Rightarrow> TaskExecutionResult \<Rightarrow> world" where
  "saveTaskReport w taskID result =
     (let report =
            \<lparr>rep_ID = 0, rep_TaskID = taskID,
             rep_Name = ''Task '' @ Sprintf_d (int taskID) @ '' Execution Report'',
             rep_Report = ''Task executed with status: '' @ ter_Status result,
             rep_Passed = PassedCases (ter_Summary result),
             rep_Error = FailedCases (ter_Summary result),
             rep_Failure = FailedCases (ter_Summary result),
             rep_Skipped = SkippedCases (ter_Summary result),
             rep_Tests = TotalCases (ter_Summary result),
             rep_RunTime = Sprintf_2f (Duration_Seconds (ter_Duration result)) @ ''s'',
             rep_CreateTime = 0\<rparr>
      in case Create_TaskReport w report of
           (Some err, w1) \<Rightarrow>
             Logger_LogError w1 ''SAVE_TASK_REPORT'' (msg_save_report_failed @ err)
               [(''task_id'', VUint taskID)]
         | (None, w1) \<Rightarrow> w1)"

text \<open>\<^verbatim>\<open>updateTaskStatus\<close> writes through the pointer it is given: the updated record is
  returned next to the world. The outcome of \<^verbatim>\<open>Save\<close> is dropped, as in the source.\<close>

definition statusInt :: "string \<Rightarrow> int" where
  "statusInt status =
     (if status = ''running'' then 1
      else if status = ''success'' then 2
      else if status = ''failed'' then 2
      else 0)"

definition updateTaskStatus :: "world \<Rightarrow> TestTask \<Rightarrow> string \<Rightarrow> string \<Rightarrow> TestTask \<times> world" where
  "updateTaskStatus w task status errorMsg =
     (let task' = task\<lparr>task_Status := statusInt status\<rparr>
      in (task', snd (Save_TestTask w task')))"

definition tally :: "CaseExecutionResult \<Rightarrow> TaskExecutionSummary \<Rightarrow> TaskExecutionSummary" where
  "tally result summary =
     (if cer_Status result = ''passed'' then summary\<lparr>PassedCases := PassedCases summary + 1\<rparr>
      else if cer_Status result = ''failed'' then summary\<lparr>FailedCases := FailedCases summary + 1\<rparr>
      else if cer_Status result = ''skipped'' then summary\<lparr>SkippedCases := SkippedCases summary + 1\<rparr>
      else summary)"

definition calculateSummary :: "CaseExecutionResult list \<Rightarrow> TaskExecutionSummary" where
  "calculateSummary results =
     (let summary = \<lparr>TotalCases = int (length results), PassedCases = 0, FailedCases = 0,
                      SkippedCases = 0, PassRate = 0\<rparr>;
          summary = fold tally results summary
      in if TotalCases summary > 0
         then summary\<lparr>PassRate :=
                real_of_int (PassedCases summary) / real_of_int (TotalCases summary) * 100\<rparr>
         else summary)"

text \<open>The loop of \<^verbatim>\<open>ExecuteTask\<close> over the bindings of the task, \<open>results\<close> being
  \<^verbatim>\<open>result.Results\<close> so far.\<close>

fun run_cases :: "(string \<Rightarrow> string option) \<Rightarrow> nat \<Rightarrow> world \<Rightarrow> CaseExecutionResult list
                    \<Rightarrow> TaskCaseRelevance list \<Rightarrow> CaseExecutionResult list \<times> world" where
  "run_cases unmarshal taskID w results [] = (results, w)"
| "run_cases unmarshal taskID w results (relevance # relevances) =
     (case First_TestCase_by_hash w (rel_CaseHash relevance) of
        (Inl err, w1) \<Rightarrow>
          (let caseResult =
                 \<lparr>cer_CaseID = 0, cer_CaseName = rel_CaseHash relevance, cer_Status = ''failed'',
                  cer_StartTime = clock w1, cer_EndTime = clock w1, cer_Duration = 0,
                  cer_ErrorMsg = msg_case_missing @ err, cer_Screenshots = [], cer_Logs = []\<rparr>
           in run_cases unmarshal taskID w1 (results @ [caseResult]) relevances)
      | (Inr testCase, w1) \<Rightarrow>
          (case executeSingleCase unmarshal w1 (tc_ID testCase) of
             (caseResult, w2) \<Rightarrow>
               run_cases unmarshal taskID (saveCaseResult w2 taskID caseResult)
                 (results @ [caseResult]) relevances))"

text \<open>\<^verbatim>\<open>ExecuteTask\<close> returns a pointer to the result (or \<^verbatim>\<open>nil\<close>) and an error
  (or \<^verbatim>\<open>nil\<close>).\<close>

definition ExecuteTask :: "(string \<Rightarrow> string option) \<Rightarrow> world \<Rightarrow> nat
                             \<Rightarrow> (TaskExecutionResult option \<times> string option) \<times> world" where
  "ExecuteTask unmarshal w taskID =
     (case First_TestTask w taskID of
        (Inl err, w1) \<Rightarrow> ((None, Some (msg_task_missing @ err)), w1)
      | (Inr task0, w1) \<Rightarrow>
          (let task = task0\<lparr>task_Status := 1\<rparr>;
               w2 = snd (Save_TestTask w1 task);
               result = \<lparr>ter_TaskID = taskID, ter_Status = ''running'', ter_StartTime = clock w2,
                         ter_EndTime = 0, ter_Duration = 0, ter_Results = [],
                         ter_Summary = \<lparr>TotalCases = 0, PassedCases = 0, FailedCases = 0,
                                         SkippedCases = 0, PassRate = 0\<rparr>,
                         ter_Error = []\<rparr>;
               w3 = Logger_LogInfo w2 ''TASK_EXECUTION'' (msg_task_started @ Sprintf_d (int taskID))
                      [(''task_id'', VUint taskID), (''task_name'', VString (task_Name task))]
           in case Find_TaskCaseRelevance w3 taskID of
                (Inl err, w4) \<Rightarrow>
                  (let result = result\<lparr>ter_Status := ''failed'',
                                        ter_Error := msg_relevances_failed @ err\<rparr>;
                       w5 = snd (updateTaskStatus w4 task ''failed'' (ter_Error result))
                   in ((Some result, Some err), w5))
              | (Inr relevances, w4) \<Rightarrow>
                  (case run_cases unmarshal taskID w4 (ter_Results result) relevances of
                     (results, w5) \<Rightarrow>
                       (let result = result\<lparr>ter_Results := results\<rparr>;
                            result = result\<lparr>ter_EndTime := clock w5\<rparr>;
                            result = result\<lparr>ter_Duration :=
                                       Time_Sub (ter_EndTime result) (ter_StartTime result)\<rparr>;
                            result = result\<lparr>ter_Summary := calculateSummary (ter_Results result)\<rparr>;
                            result = (if FailedCases (ter_Summary result) > 0
                                      then result\<lparr>ter_Status := ''failed''\<rparr>
                                      else result\<lparr>ter_Status := ''success''\<rparr>);
                            w6 = snd (updateTaskStatus w5 task (ter_Status result) []);
                            w7 = saveTaskReport w6 taskID result;
                            w8 = Logger_LogInfo w7 ''TASK_EXECUTION''
                                   (msg_task_finished @ Sprintf_d (int taskID))
                                   [(''task_id'', VUint taskID),
                                    (''status'', VString (ter_Status result)),
                                    (''duration'', VString (Duration_String (ter_Duration result))),
                                    (''total_cases'', VInt (TotalCases (ter_Summary result))),
                                    (''passed_cases'', VInt (PassedCases (ter_Summary result))),
                                    (''failed_cases'', VInt (FailedCases (ter_Summary result)))]
                        in ((Some result, None), w8)))))"

definition GetTaskStatus :: "world \<Rightarrow> nat \<Rightarrow> (string + string) \<times> world" where
  "GetTaskStatus w taskID =
     (case First_TestTask w taskID of
        (Inl err, w1) \<Rightarrow> (Inl (msg_task_missing @ err), w1)
      | (Inr task, w1) \<Rightarrow>
          (let w2 = utils_LogInfo w1 ''Getting task status''
                      [(''task_id'', VUint (task_ID task)), (''task_name'', VString (task_Name task))]
           in (Inr (Sprintf_d (task_Status task)), w2)))"

definition StopTask :: "world \<Rightarrow> nat \<Rightarrow> string option \<times> world" where
  "StopTask w taskID =
     (case First_TestTask w taskID of
        (Inl err, w1) \<Rightarrow> (Some (msg_task_missing @ err), w1)
      | (Inr task, w1) \<Rightarrow>
          (if task_Status task \<noteq> 1 then (Some msg_not_running, w1)
           else
             (let task = task\<lparr>task_Status := 2\<rparr>;
                  task = task\<lparr>task_UpdateTime := clock w1\<rparr>
              in case Save_TestTask w1 task of
                   (Some err, w2) \<Rightarrow> (Some (msg_update_failed @ err), w2)
                 | (None, w2) \<Rightarrow>
                     (None, Logger_LogInfo w2 ''TASK_STOP'' (msg_task_stopped @ Sprintf_d (int taskID))
                              [(''task_id'', VUint taskID)]))))"

subsection \<open>\<^verbatim>\<open>services.SchedulerService\<close>\<close>

text \<open>
  \<^verbatim>\<open>executeScheduledTask\<close> is the callback the cron registry runs when a task is due. Its
  last statement starts a goroutine; the model records the task identifier in
  \<open>dispatched\<close>. \<open>scheduled_batch\<close> is the body of that goroutine.
\<close>

definition executeScheduledTask :: "world \<Rightarrow> nat \<Rightarrow> world" where
  "executeScheduledTask w taskID =
     (let w1 = Logger_LogInfo w ''SCHEDULER'' (msg_due_started @ Sprintf_d (int taskID))
                 [(''task_id'', VUint taskID)]
      in case GetTaskStatus w1 taskID of
           (Inl err, w2) \<Rightarrow>
             Logger_LogError w2 ''SCHEDULER'' (msg_status_failed @ err) [(''task_id'', VUint taskID)]
         | (Inr status, w2) \<Rightarrow>
             (if status = ''running''
              then Logger_LogInfo w2 ''SCHEDULER''
                     (msg_skip_prefix @ Sprintf_d (int taskID) @ msg_skip_suffix)
                     [(''task_id'', VUint taskID)]
              else w2\<lparr>dispatched := dispatched w2 @ [taskID]\<rparr>))"

definition scheduled_batch :: "(string \<Rightarrow> string option) \<Rightarrow> world \<Rightarrow> nat \<Rightarrow> world" where
  "scheduled_batch unmarshal w taskID =
     (case ExecuteTask unmarshal w taskID of
        ((_, Some err), w1) \<Rightarrow>
          Logger_LogError w1 ''SCHEDULER'' (msg_due_failed @ err) [(''task_id'', VUint taskID)]
      | ((None, None), w1) \<Rightarrow> w1
      | ((Some result, None), w1) \<Rightarrow>
          Logger_LogInfo w1 ''SCHEDULER'' (msg_due_finished @ Sprintf_d (int taskID))
            [(''task_id'', VUint taskID), (''status'', VString (ter_Status result)),
             (''duration'', VString (Duration_String (ter_Duration result)))])"

text \<open>The due-handler run \<open>n\<close> times in a row.\<close>

fun due_repeatedly :: "nat \<Rightarrow> world \<Rightarrow> nat \<Rightarrow> world" where
  "due_repeatedly 0 w taskID = w"
| "due_repeatedly (Suc n) w taskID = due_repeatedly n (executeScheduledTask w taskID) taskID"

subsubsection \<open>\<^verbatim>\<open>GetTaskStatistics\<close>\<close>

text \<open>
  The four queries of \<^verbatim>\<open>GetTaskStatistics\<close> go to the table of \<^verbatim>\<open>models.TaskReport\<close>. Their
  conditions are written in SQL and name columns: a condition is kept as the source writes
  it, a conjunction of comparisons of a named column with the bound values. The table has
  the columns the struct declares, under the names the mapper derives from the field names
  (\<^verbatim>\<open>TaskID\<close> is \<^verbatim>\<open>task_id\<close>, \<^verbatim>\<open>RunTime\<close> is \<^verbatim>\<open>run_time\<close>, \<^verbatim>\<open>CreateTime\<close> is
  \<^verbatim>\<open>create_time\<close>, the name by which the report handler of package \<^verbatim>\<open>handlers\<close> orders
  the same table); the association \<^verbatim>\<open>Task\<close> is no column. A statement that names a column
  the table does not have is refused by the database: the call fails, whatever the rows.
\<close>

datatype sql_value = SqlInt int | SqlText string | SqlTime int

text \<open>\<open>Equals c v\<close> is \<^verbatim>\<open>c = ?\<close> with \<open>v\<close> bound, \<open>Between c lo hi\<close> is
  \<^verbatim>\<open>c BETWEEN ? AND ?\<close> with the times \<open>lo\<close> and \<open>hi\<close> bound.\<close>

datatype sql_cond =
    Equals string sql_value
  | Between string int int

fun cond_column :: "sql_cond \<Rightarrow> string" where
  "cond_column (Equals c v) = c"
| "cond_column (Between c lo hi) = c"

definition TaskReport_columns :: "string list" where
  "TaskReport_columns =
     [''id'', ''task_id'', ''name'', ''report'', ''passed'', ''error'', ''failure'',
      ''skipped'', ''tests'', ''run_time'', ''create_time'']"

definition TaskReport_value :: "TaskReport \<Rightarrow> string \<Rightarrow> sql_value option" where
  "TaskReport_value r c =
     (if c = ''id'' then Some (SqlInt (int (rep_ID r)))
      else if c = ''task_id'' then Some (SqlInt (int (rep_TaskID r)))
      else if c = ''name'' then Some (SqlText (rep_Name r))
      else if c = ''report'' then Some (SqlText (rep_Report r))
      else if c = ''passed'' then Some (SqlInt (rep_Passed r))
      else if c = ''error'' then Some (SqlInt (rep_Error r))
      else if c = ''failure'' then Some (SqlInt (rep_Failure r))
      else if c = ''skipped'' then Some (SqlInt (rep_Skipped r))
      else if c = ''tests'' then Some (SqlInt (rep_Tests r))
      else if c = ''run_time'' then Some (SqlText (rep_RunTime r))
      else if c = ''create_time'' then Some (SqlTime (rep_CreateTime r))
      else None)"

text \<open>Both ends of \<^verbatim>\<open>BETWEEN\<close> are included; the bound times are compared with the time
  of a time column.\<close>

fun cond_holds :: "TaskReport \<Rightarrow> sql_cond \<Rightarrow> bool" where
  "cond_holds r (Equals c v) = (TaskReport_value r c = Some v)"
| "cond_holds r (Between c lo hi) =
     (case TaskReport_value r c of
        Some (SqlTime x) \<Rightarrow> lo \<le> x \<and> x \<le> hi
      | _ \<Rightarrow> False)"

definition unknown_column :: "sql_cond list \<Rightarrow> string option" where
  "unknown_column conds = find (\<lambda>c. c \<notin> set TaskReport_columns) (map cond_column conds)"

definition select_TaskReport :: "world \<Rightarrow> sql_cond list \<Rightarrow> (string + TaskReport list) \<times> world" where
  "select_TaskReport w conds =
     (case db_call w of
        (Some e, w') \<Rightarrow> (Inl e, w')
      | (None, w') \<Rightarrow>
         (case unknown_column conds of
            Some c \<Rightarrow> (Inl (''no such column: '' @ c), w')
          | None \<Rightarrow> (Inr (filter (\<lambda>r. list_all (cond_holds r) conds) (taskreports w')), w')))"

definition Count_TaskReport :: "world \<Rightarrow> sql_cond list \<Rightarrow> (string + int) \<times> world" where
  "Count_TaskReport w conds =
     (case select_TaskReport w conds of
        (Inl e, w') \<Rightarrow> (Inl e, w')
      | (Inr rows, w') \<Rightarrow> (Inr (int (length rows)), w'))"

definition Find_TaskReport :: "world \<Rightarrow> sql_cond list \<Rightarrow> (string + TaskReport list) \<times> world" where
  "Find_TaskReport w conds = select_TaskReport w conds"

record TaskStatistics =
  total_runs :: int
  success_runs :: int
  failed_runs :: int
  success_rate :: real
  avg_duration :: real
  period_days :: int

text \<open>The loop over the reports, \<open>totalDuration\<close> being the sum so far.\<close>

fun sum_durations :: "int \<Rightarrow> TaskReport list \<Rightarrow> int" where
  "sum_durations totalDuration [] = totalDuration"
| "sum_durations totalDuration (report # reports) =
     (case ParseDuration (rep_RunTime report @ ''s'') of
        Some duration \<Rightarrow> sum_durations (wrap64 (totalDuration + duration)) reports
      | None \<Rightarrow> sum_durations totalDuration reports)"

text \<open>Lines 272 to 281: the average of the reports that the last query has found.\<close>

definition avgDuration :: "TaskReport list \<Rightarrow> real" where
  "avgDuration reports =
     (if length reports > 0
      then Duration_Seconds (sum_durations 0 reports) / real (length reports)
      else 0)"

text \<open>
  A query that fails leaves its target at the zero value, since the source does not look
  at the error. \<^verbatim>\<open>AddDate(0, 0, -days)\<close> is \<open>days\<close> times 24 hours (the offset of the
  time zone taken as constant).
\<close>

definition GetTaskStatistics :: "world \<Rightarrow> nat \<Rightarrow> int \<Rightarrow> TaskStatistics \<times> world" where
  "GetTaskStatistics w taskID days =
     (let endTime = clock w;
          startTime = endTime - days * 24 * int Hour;
          of_task = Equals ''task_id'' (SqlInt (int taskID));
          window = Between ''created_at'' startTime endTime
      in case Count_TaskReport w [of_task, window] of
           (r1, w1) \<Rightarrow>
         (case Count_TaskReport w1 [of_task, Equals ''status'' (SqlText ''success''), window] of
           (r2, w2) \<Rightarrow>
         (case Count_TaskReport w2 [of_task, Equals ''status'' (SqlText ''failed''), window] of
           (r3, w3) \<Rightarrow>
         (case Find_TaskReport w3 [of_task, window] of
           (r4, w4) \<Rightarrow>
             (let totalRuns = (case r1 of Inl _ \<Rightarrow> 0 | Inr n \<Rightarrow> n);
                  successRuns = (case r2 of Inl _ \<Rightarrow> 0 | Inr n \<Rightarrow> n);
                  failedRuns = (case r3 of Inl _ \<Rightarrow> 0 | Inr n \<Rightarrow> n);
                  successRate = (if totalRuns > 0
                                 then real_of_int successRuns / real_of_int totalRuns * 100 else 0);
                  reports = (case r4 of Inl _ \<Rightarrow> [] | Inr rs \<Rightarrow> rs)
              in (\<lparr>total_runs = totalRuns, success_runs = successRuns, failed_runs = failedRuns,
                   success_rate = successRate, avg_duration = avgDuration reports,
                   period_days = days\<rparr>, w4))))))"

text \<open>
  The reading of the specification for the average: the mean, in seconds, of the durations
  of those reports whose duration text parses, and 0 when none does.
\<close>

definition parsed_durations :: "TaskReport list \<Rightarrow> int list" where
  "parsed_durations reports =
     concat (map (\<lambda>r. case ParseDuration (rep_RunTime r @ ''s'') of
                         Some d \<Rightarrow> [d] | None \<Rightarrow> []) reports)"

definition avg_over_parsed :: "TaskReport list \<Rightarrow> real" where
  "avg_over_parsed reports =
     (let ds = parsed_durations reports
      in if ds = [] then 0
         else Duration_Seconds (sum_list ds) / real (length ds))"

subsection \<open>Predicates of the statements\<close>

text \<open>A case result whose final status is \<^verbatim>\<open>passed\<close> or \<^verbatim>\<open>failed\<close>.\<close>

definition passed_or_failed :: "CaseExecutionResult \<Rightarrow> bool" where
  "passed_or_failed c \<longleftrightarrow> cer_Status c = ''passed'' \<or> cer_Status c = ''failed''"

text \<open>\<open>same_tables w w'\<close>: no row of any table differs between the two worlds, and no batch
  was dispatched in between.\<close>

definition same_tables :: "world \<Rightarrow> world \<Rightarrow> bool" where
  "same_tables w w' \<longleftrightarrow>
     testtasks w' = testtasks w \<and> taskcaserelevances w' = taskcaserelevances w \<and>
     testcases w' = testcases w \<and> caseresults w' = caseresults w \<and>
     taskreports w' = taskreports w \<and> dispatched w' = dispatched w"

text \<open>\<open>keeps_rows w w'\<close>: the step from \<open>w\<close> to \<open>w'\<close> wrote at most case results and log
  entries, and a store without faults stays without faults.\<close>

definition keeps_rows :: "world \<Rightarrow> world \<Rightarrow> bool" where
  "keeps_rows w w' \<longleftrightarrow>
     testtasks w' = testtasks w \<and> taskcaserelevances w' = taskcaserelevances w \<and>
     testcases w' = testcases w \<and> taskreports w' = taskreports w \<and>
     dispatched w' = dispatched w \<and> (faults w = [] \<longrightarrow> faults w' = [])"

definition in_int64 :: "int \<Rightarrow> bool" where
  "in_int64 x \<longleftrightarrow> - (2 ^ 63) \<le> x \<and> x < 2 ^ 63"

subsection \<open>Concrete worlds\<close>

text \<open>
  A task \<^verbatim>\<open>nightly\<close> with identifier 1, bound to the hashes \<^verbatim>\<open>hashA\<close> and \<^verbatim>\<open>hashB\<close>; one
  case, with identifier 7, carries \<^verbatim>\<open>hashA\<close> and the document \<^verbatim>\<open>{}\<close>; no case carries
  \<^verbatim>\<open>hashB\<close>. The store answers every call, and the first sleep lasts 481938 nanoseconds
  longer than asked. \<open>unmarshal_braces\<close> stands for
  \<^verbatim>\<open>json.Unmarshal\<close> on these worlds: it accepts the empty object, the only document it is
  given.
\<close>

definition demo_task :: TestTask where
  "demo_task = \<lparr>task_ID = 1, task_ProjectID = 1, task_Name = ''nightly'', task_Status = 0,
     task_EnvID = None, task_TeamID = None, task_Email = [], task_Timed = [],
     task_IsScheduled = True, task_CronExpression = ''0 0 12 * * *'', task_ExecuteCount = 0,
     task_IsDelete = False, task_CreateTime = 0, task_UpdateTime = 0\<rparr>"

definition demo_case :: TestCase where
  "demo_case = \<lparr>tc_ID = 7, tc_ProjectID = 1, tc_FileName = ''test_login.py'',
     tc_ClassName = ''LoginTest'', tc_ClassDoc = [], tc_CaseName = ''test_login'',
     tc_CaseDoc = ''{}'', tc_Label = [], tc_Status = 0, tc_CaseHash = ''hashA'',
     tc_CreateTime = 0, tc_UpdateTime = 0\<rparr>"

definition binding_A :: TaskCaseRelevance where
  "binding_A = \<lparr>rel_ID = 1, rel_TaskID = 1, rel_CaseHash = ''hashA'', rel_CreateTime = 0\<rparr>"

definition binding_B :: TaskCaseRelevance where
  "binding_B = \<lparr>rel_ID = 2, rel_TaskID = 1, rel_CaseHash = ''hashB'', rel_CreateTime = 0\<rparr>"

definition demo_world :: world where
  "demo_world = \<lparr>testtasks = [demo_task],
     taskcaserelevances = [binding_A, binding_B],
     testcases = [demo_case], caseresults = [], taskreports = [],
     clock = 5000000000, lags = [481938], faults = [], logged = [], dispatched = []\<rparr>"

definition unmarshal_braces :: "string \<Rightarrow> string option" where
  "unmarshal_braces doc = (if doc = ''{}'' then None else Some ''unexpected end of JSON input'')"

text \<open>The same store with the task marked as running, and with the task bound to no case.\<close>

definition running_task :: TestTask where
  "running_task = demo_task\<lparr>task_Status := 1\<rparr>"

definition running_world :: world where
  "running_world = demo_world\<lparr>testtasks := [running_task]\<rparr>"

definition unbound_world :: world where
  "unbound_world = demo_world\<lparr>taskcaserelevances := []\<rparr>"

text \<open>
  Two reports of task 1, both created one day before the clock's time (ten days after the
  epoch): the duration text of the first is \<^verbatim>\<open>2\<close>, that of the second is \<^verbatim>\<open>abc\<close>.
\<close>

definition report_two_seconds :: TaskReport where
  "report_two_seconds = \<lparr>rep_ID = 1, rep_TaskID = 1, rep_Name = ''first'', rep_Report = [],
     rep_Passed = 1, rep_Error = 0, rep_Failure = 0, rep_Skipped = 0, rep_Tests = 1,
     rep_RunTime = ''2'', rep_CreateTime = 777600000000000\<rparr>"

definition report_unparsable :: TaskReport where
  "report_unparsable = \<lparr>rep_ID = 2, rep_TaskID = 1, rep_Name = ''second'', rep_Report = [],
     rep_Passed = 1, rep_Error = 0, rep_Failure = 0, rep_Skipped = 0, rep_Tests = 1,
     rep_RunTime = ''abc'', rep_CreateTime = 777600000000000\<rparr>"

definition stats_world :: world where
  "stats_world = \<lparr>testtasks = [demo_task], taskcaserelevances = [], testcases = [],
     caseresults = [], taskreports = [report_two_seconds, report_unparsable],
     clock = 864000000000000, lags = [], faults = [], logged = [], dispatched = []\<rparr>"

text \<open>A passed and a failed case result, and a batch result holding them.\<close>

definition passed_result :: CaseExecutionResult where
  "passed_result = \<lparr>cer_CaseID = 7, cer_CaseName = ''test_login'', cer_Status = ''passed'',
     cer_StartTime = 5000000000, cer_EndTime = 5100481938, cer_Duration = 100481938,
     cer_ErrorMsg = [], cer_Screenshots = [], cer_Logs = []\<rparr>"

definition failed_result :: CaseExecutionResult where
  "failed_result = \<lparr>cer_CaseID = 0, cer_CaseName = ''hashB'', cer_Status = ''failed'',
     cer_StartTime = 5100481938, cer_EndTime = 5100481938, cer_Duration = 0,
     cer_ErrorMsg = msg_case_missing @ ErrRecordNotFound, cer_Screenshots = [], cer_Logs = []\<rparr>"

definition demo_result :: TaskExecutionResult where
  "demo_result = \<lparr>ter_TaskID = 1, ter_Status = ''failed'', ter_StartTime = 5000000000,
     ter_EndTime = 5100481938, ter_Duration = 100481938,
     ter_Results = [passed_result, failed_result],
     ter_Summary = \<lparr>TotalCases = 2, PassedCases = 1, FailedCases = 1, SkippedCases = 0,
                     PassRate = 50\<rparr>,
     ter_Error = []\<rparr>"

section \<open>Properties\<close>

subsection \<open>The cron validator\<close>

lemma length_flush: "length (flush cur) = (if cur = [] then 0 else 1)"
  by (simp add: flush_def)

lemma length_Fields_from:
  "length (Fields_from cur s) =
     (if cur = [] then count_fields True s else Suc (count_fields False s))"
proof (induction cur s rule: Fields_from.induct)
  case (1 cur)
  then show ?case by (simp add: length_flush)
next
  case (2 cur c cs)
  show ?case
  proof (cases "space_width (c # cs)")
    case 0
    with 2 show ?thesis by simp
  next
    case (Suc k)
    with 2 show ?thesis by (simp add: length_flush)
  qed
qed

lemma length_Fields: "length (Fields s) = count_fields True s"
  by (simp add: Fields_def length_Fields_from)

lemma Fields_four_stars: "Fields ''* * * *'' = [''*'', ''*'', ''*'', ''*'']"
  by (simp add: Fields_def asciiSpace_def flush_def)

lemma Fields_noon: "Fields ''0 0 12 * * *'' = [''0'', ''0'', ''12'', ''*'', ''*'', ''*'']"
  by (simp add: Fields_def asciiSpace_def flush_def)

text \<open>
  Claim C5. \<^verbatim>\<open>IsValidCronExpression\<close> accepts an expression exactly when it is empty or
  splits on white space into exactly five or exactly six fields; the four-field expression
  \<^verbatim>\<open>* * * *\<close> is rejected and the six-field expression \<^verbatim>\<open>0 0 12 * * *\<close> is accepted.
\<close>

theorem IsValidCronExpression_iff_five_or_six_fields:
  "(IsValidCronExpression expr \<longleftrightarrow> Validate_spec expr)
   \<and> \<not> IsValidCronExpression ''* * * *''
   \<and> IsValidCronExpression ''0 0 12 * * *''"
proof -
  have "IsValidCronExpression expr \<longleftrightarrow> Validate_spec expr"
    unfolding IsValidCronExpression_def Validate_spec_def Let_def length_Fields by auto
  moreover have "\<not> IsValidCronExpression ''* * * *''"
    by (simp add: IsValidCronExpression_def Fields_four_stars)
  moreover have "IsValidCronExpression ''0 0 12 * * *''"
    by (simp add: IsValidCronExpression_def Fields_noon)
  ultimately show ?thesis by simp
qed

subsection \<open>Database calls\<close>

lemma db_call_eq:
  "db_call w = ((case faults w of [] \<Rightarrow> None | f # _ \<Rightarrow> f), w\<lparr>faults := tl (faults w)\<rparr>)"
  by (cases "faults w") (simp_all add: db_call_def)

lemma db_call_healthy: "faults w = [] \<Longrightarrow> db_call w = (None, w)"
  by (simp add: db_call_def)

lemma First_TestTask_world:
  "snd (First_TestTask w taskID) = w\<lparr>faults := tl (faults w)\<rparr>"
  by (simp add: First_TestTask_def db_call_eq split: list.splits option.splits)

lemma first_by_pk_None [simp]: "first_by_pk pk rs = None \<longleftrightarrow> rs = []"
  by (induction rs) (auto split: option.splits)

lemma first_by_pk_mem: "first_by_pk pk rs = Some r \<Longrightarrow> r \<in> set rs"
  by (induction rs arbitrary: r) (auto split: option.splits if_splits)

lemma first_by_pk_single [simp]: "first_by_pk pk [r] = Some r"
  by simp

lemma First_TestTask_Inr:
  assumes "First_TestTask w taskID = (Inr t, w1)"
  shows "task_ID t = taskID \<and> t \<in> set (testtasks w) \<and> w1 = w\<lparr>faults := tl (faults w)\<rparr>
         \<and> (case faults w of [] \<Rightarrow> True | f # _ \<Rightarrow> f = None)"
proof -
  from assms have ok: "(case faults w of [] \<Rightarrow> None | f # _ \<Rightarrow> f) = None"
    and fb: "first_by_pk task_ID (filter (\<lambda>t. task_ID t = taskID) (testtasks w)) = Some t"
    and w1: "w1 = w\<lparr>faults := tl (faults w)\<rparr>"
    by (auto simp: First_TestTask_def db_call_eq split: option.splits)
  from first_by_pk_mem[OF fb] have "task_ID t = taskID" "t \<in> set (testtasks w)" by auto
  with ok w1 show ?thesis by (auto split: list.splits)
qed

lemma First_TestTask_missing:
  assumes "taskID \<notin> set (map task_ID (testtasks w))"
  shows "First_TestTask w taskID =
           (Inl (case faults w of Some e # _ \<Rightarrow> e | _ \<Rightarrow> ErrRecordNotFound),
            w\<lparr>faults := tl (faults w)\<rparr>)"
proof -
  from assms have "filter (\<lambda>t. task_ID t = taskID) (testtasks w) = []"
    by (auto simp: filter_empty_conv)
  then show ?thesis
    by (simp add: First_TestTask_def db_call_eq split: list.splits option.splits)
qed

text \<open>
  Claim C7. A batch started for a task identifier that no row of the task table carries
  fails with the not-found error and aborts: \<^verbatim>\<open>ExecuteTask\<close> returns no result and the error
  ``task does not exist'' followed by the store's text (\<^verbatim>\<open>record not found\<close> when the store
  answers), no table changes (no status is persisted, no case result and no report is
  written), the clock has not moved (no case was run) and nothing is logged.
\<close>

theorem ExecuteTask_missing_task_aborts:
  assumes "taskID \<notin> set (map task_ID (testtasks w))"
  shows "fst (ExecuteTask unmarshal w taskID) =
           (None, Some (msg_task_missing @ (case faults w of Some e # _ \<Rightarrow> e | _ \<Rightarrow> ErrRecordNotFound)))
       \<and> same_tables w (snd (ExecuteTask unmarshal w taskID))
       \<and> clock (snd (ExecuteTask unmarshal w taskID)) = clock w
       \<and> logged (snd (ExecuteTask unmarshal w taskID)) = logged w"
  by (simp add: ExecuteTask_def First_TestTask_missing[OF assms] same_tables_def)


subsection \<open>What the steps of a batch leave alone\<close>


lemma keeps_rows_refl [simp]: "keeps_rows w w"
  by (simp add: keeps_rows_def)

lemma keeps_rows_trans: "keeps_rows w w1 \<Longrightarrow> keeps_rows w1 w2 \<Longrightarrow> keeps_rows w w2"
  by (simp add: keeps_rows_def)

lemma First_TestCase_by_hash_world:
  "snd (First_TestCase_by_hash w h) = w\<lparr>faults := tl (faults w)\<rparr>"
  by (simp add: First_TestCase_by_hash_def db_call_eq split: list.splits option.splits)

lemma First_TestCase_world:
  "snd (First_TestCase w caseID) = w\<lparr>faults := tl (faults w)\<rparr>"
  by (simp add: First_TestCase_def db_call_eq split: list.splits option.splits)

lemma executeSingleCase_keeps: "keeps_rows w (snd (executeSingleCase u w caseID))"
proof -
  obtain r w1 where f: "First_TestCase w caseID = (r, w1)" by (cases "First_TestCase w caseID")
  with First_TestCase_world[of w caseID] have w1: "w1 = w\<lparr>faults := tl (faults w)\<rparr>" by simp
  show ?thesis
    by (simp add: executeSingleCase_def f w1 keeps_rows_def Let_def runTestCase_def time_Sleep_def
        split: sum.splits option.splits list.splits)
qed

lemma saveCaseResult_keeps: "keeps_rows w (saveCaseResult w taskID c)"
  by (simp add: saveCaseResult_def Create_CaseResult_def db_call_eq keeps_rows_def Let_def
      Logger_LogError_def split: list.splits option.splits)

lemma run_cases_keeps: "keeps_rows w (snd (run_cases u taskID w results rels))"
proof (induction rels arbitrary: w results)
  case Nil
  show ?case by simp
next
  case (Cons rel rels)
  obtain r w1 where f: "First_TestCase_by_hash w (rel_CaseHash rel) = (r, w1)"
    by (cases "First_TestCase_by_hash w (rel_CaseHash rel)")
  with First_TestCase_by_hash_world[of w "rel_CaseHash rel"]
  have w1: "w1 = w\<lparr>faults := tl (faults w)\<rparr>" by simp
  then have k1: "keeps_rows w w1" by (simp add: keeps_rows_def)
  show ?case
  proof (cases r)
    case (Inl err)
    with f show ?thesis
      using keeps_rows_trans[OF k1 Cons.IH] by (simp add: Let_def)
  next
    case (Inr tc)
    obtain cres w2 where e: "executeSingleCase u w1 (tc_ID tc) = (cres, w2)"
      by (cases "executeSingleCase u w1 (tc_ID tc)")
    have k2: "keeps_rows w1 w2" using executeSingleCase_keeps[of w1 u "tc_ID tc"] e by simp
    have k3: "keeps_rows w2 (saveCaseResult w2 taskID cres)" by (rule saveCaseResult_keeps)
    from f Inr e show ?thesis
      using keeps_rows_trans[OF k1 keeps_rows_trans[OF k2 keeps_rows_trans[OF k3 Cons.IH]]]
      by simp
  qed
qed


subsection \<open>The shape of a batch\<close>

lemma Save_TestTask_keeps:
  "taskcaserelevances (snd (Save_TestTask w t)) = taskcaserelevances w
   \<and> testcases (snd (Save_TestTask w t)) = testcases w
   \<and> caseresults (snd (Save_TestTask w t)) = caseresults w
   \<and> taskreports (snd (Save_TestTask w t)) = taskreports w
   \<and> dispatched (snd (Save_TestTask w t)) = dispatched w
   \<and> clock (snd (Save_TestTask w t)) = clock w
   \<and> logged (snd (Save_TestTask w t)) = logged w
   \<and> faults (snd (Save_TestTask w t)) = tl (faults w)"
  by (simp add: Save_TestTask_def db_call_eq split: list.splits option.splits)

lemma Find_TaskCaseRelevance_eq:
  "Find_TaskCaseRelevance w taskID =
     ((case faults w of Some e # _ \<Rightarrow> Inl e
       | _ \<Rightarrow> Inr (filter (\<lambda>r. rel_TaskID r = taskID) (taskcaserelevances w))),
      w\<lparr>faults := tl (faults w)\<rparr>)"
  by (simp add: Find_TaskCaseRelevance_def db_call_eq split: list.splits option.splits)

lemma ExecuteTask_shape:
  assumes "ExecuteTask u w taskID = ((Some r, None), w')"
  shows "\<exists>t w1 w4 w5.
           First_TestTask w taskID = (Inr t, w1)
         \<and> keeps_rows (snd (Save_TestTask w1 (t\<lparr>task_Status := 1\<rparr>))) w4
         \<and> caseresults w4 = caseresults w \<and> clock w4 = clock w
         \<and> run_cases u taskID w4 []
               (filter (\<lambda>x. rel_TaskID x = taskID) (taskcaserelevances w)) = (ter_Results r, w5)
         \<and> ter_Summary r = calculateSummary (ter_Results r)
         \<and> ter_Status r = (if FailedCases (ter_Summary r) > 0 then ''failed'' else ''success'')
         \<and> ter_EndTime r = clock w5
         \<and> w' = Logger_LogInfo
                  (saveTaskReport (snd (updateTaskStatus w5 (t\<lparr>task_Status := 1\<rparr>) (ter_Status r) []))
                     taskID r)
                  ''TASK_EXECUTION'' (msg_task_finished @ Sprintf_d (int taskID))
                  [(''task_id'', VUint taskID),
                   (''status'', VString (ter_Status r)),
                   (''duration'', VString (Duration_String (ter_Duration r))),
                   (''total_cases'', VInt (TotalCases (ter_Summary r))),
                   (''passed_cases'', VInt (PassedCases (ter_Summary r))),
                   (''failed_cases'', VInt (FailedCases (ter_Summary r)))]"
proof -
  obtain x w1 where f: "First_TestTask w taskID = (x, w1)" by (cases "First_TestTask w taskID")
  from assms f obtain t where x: "x = Inr t"
    by (cases x) (auto simp: ExecuteTask_def)
  define w2 where "w2 = snd (Save_TestTask w1 (t\<lparr>task_Status := 1\<rparr>))"
  define w3 where "w3 = Logger_LogInfo w2 ''TASK_EXECUTION'' (msg_task_started @ Sprintf_d (int taskID))
                      [(''task_id'', VUint taskID), (''task_name'', VString (task_Name (t\<lparr>task_Status := 1\<rparr>)))]"
  obtain y w4 where g: "Find_TaskCaseRelevance w3 taskID = (y, w4)"
    by (cases "Find_TaskCaseRelevance w3 taskID")
  have w1: "w1 = w\<lparr>faults := tl (faults w)\<rparr>"
    using First_TestTask_world[of w taskID] f by simp
  have r3: "taskcaserelevances w3 = taskcaserelevances w"
    unfolding w3_def w2_def using Save_TestTask_keeps[of w1 "t\<lparr>task_Status := 1\<rparr>"] w1
    by (simp add: Logger_LogInfo_def)
  from assms f x g obtain rels where y: "y = Inr rels"
    by (cases y) (auto simp: ExecuteTask_def Let_def w2_def w3_def)
  from g y have rels: "rels = filter (\<lambda>x. rel_TaskID x = taskID) (taskcaserelevances w)"
    and w4: "w4 = w3\<lparr>faults := tl (faults w3)\<rparr>"
    using r3 by (auto simp: Find_TaskCaseRelevance_eq split: list.splits option.splits)
  have k4: "keeps_rows (snd (Save_TestTask w1 (t\<lparr>task_Status := 1\<rparr>))) w4"
    unfolding w4 w3_def w2_def by (simp add: keeps_rows_def Logger_LogInfo_def)
  have c4: "caseresults w4 = caseresults w \<and> clock w4 = clock w"
    unfolding w4 w3_def w2_def using Save_TestTask_keeps[of w1 "t\<lparr>task_Status := 1\<rparr>"] w1
    by (simp add: Logger_LogInfo_def)
  obtain results w5 where rc: "run_cases u taskID w4 [] rels = (results, w5)"
    by (cases "run_cases u taskID w4 [] rels")
  from assms f x g y rc
  have "ter_Results r = results
      \<and> ter_Summary r = calculateSummary (ter_Results r)
      \<and> ter_Status r = (if FailedCases (ter_Summary r) > 0 then ''failed'' else ''success'')
      \<and> ter_EndTime r = clock w5
      \<and> w' = Logger_LogInfo
                  (saveTaskReport (snd (updateTaskStatus w5 (t\<lparr>task_Status := 1\<rparr>) (ter_Status r) []))
                     taskID r)
                  ''TASK_EXECUTION'' (msg_task_finished @ Sprintf_d (int taskID))
                  [(''task_id'', VUint taskID),
                   (''status'', VString (ter_Status r)),
                   (''duration'', VString (Duration_String (ter_Duration r))),
                   (''total_cases'', VInt (TotalCases (ter_Summary r))),
                   (''passed_cases'', VInt (PassedCases (ter_Summary r))),
                   (''failed_cases'', VInt (FailedCases (ter_Summary r)))]"
    by (auto simp: ExecuteTask_def Let_def w2_def w3_def split: if_splits)
  with f x rc rels k4 c4 show ?thesis by blast
qed


lemma First_TestTask_healthy:
  assumes "faults w = []" and "taskID \<in> set (map task_ID (testtasks w))"
  shows "\<exists>t. First_TestTask w taskID = (Inr t, w) \<and> task_ID t = taskID \<and> t \<in> set (testtasks w)"
proof -
  from assms(2) have ne: "filter (\<lambda>t. task_ID t = taskID) (testtasks w) \<noteq> []"
    by (auto simp: filter_empty_conv)
  then obtain t where fb: "first_by_pk task_ID (filter (\<lambda>t. task_ID t = taskID) (testtasks w)) = Some t"
    by (cases "first_by_pk task_ID (filter (\<lambda>t. task_ID t = taskID) (testtasks w))") auto
  from first_by_pk_mem[OF fb] have "task_ID t = taskID" "t \<in> set (testtasks w)" by auto
  with fb assms(1) show ?thesis
    by (simp add: First_TestTask_def db_call_healthy)
qed

lemma ExecuteTask_returns:
  assumes "faults w = []" and "taskID \<in> set (map task_ID (testtasks w))"
  shows "\<exists>r w'. ExecuteTask u w taskID = ((Some r, None), w')"
proof -
  from First_TestTask_healthy[OF assms] obtain t where f: "First_TestTask w taskID = (Inr t, w)"
    by blast
  have h2: "faults (snd (Save_TestTask w (t\<lparr>task_Status := 1\<rparr>))) = []"
    using Save_TestTask_keeps[of w "t\<lparr>task_Status := 1\<rparr>"] assms(1) by simp
  show ?thesis
    by (simp add: ExecuteTask_def f Let_def Find_TaskCaseRelevance_eq Logger_LogInfo_def h2
        split: prod.splits)
qed

lemma tally_TotalCases [simp]: "TotalCases (tally c s) = TotalCases s"
  by (simp add: tally_def)

lemma tally_PassRate [simp]: "PassRate (tally c s) = PassRate s"
  by (simp add: tally_def)

lemma fold_tally_TotalCases [simp]: "TotalCases (fold tally rs s) = TotalCases s"
  by (induction rs arbitrary: s) simp_all

lemma fold_tally_PassRate [simp]: "PassRate (fold tally rs s) = PassRate s"
  by (induction rs arbitrary: s) simp_all

lemma fold_tally_PassedCases:
  "PassedCases (fold tally rs s)
     = PassedCases s + int (length (filter (\<lambda>c. cer_Status c = ''passed'') rs))"
  by (induction rs arbitrary: s) (simp_all add: tally_def)

lemma fold_tally_FailedCases:
  "FailedCases (fold tally rs s)
     = FailedCases s + int (length (filter (\<lambda>c. cer_Status c = ''failed'') rs))"
  by (induction rs arbitrary: s) (simp_all add: tally_def)

lemma calculateSummary_fields:
  "TotalCases (calculateSummary rs) = int (length rs)"
  "PassedCases (calculateSummary rs) = int (length (filter (\<lambda>c. cer_Status c = ''passed'') rs))"
  "FailedCases (calculateSummary rs) = int (length (filter (\<lambda>c. cer_Status c = ''failed'') rs))"
  "PassRate (calculateSummary rs) =
     (if rs = [] then 0
      else real (length (filter (\<lambda>c. cer_Status c = ''passed'') rs)) / real (length rs) * 100)"
  by (simp_all add: calculateSummary_def Let_def fold_tally_PassedCases fold_tally_FailedCases)

text \<open>
  Claim C6. For every list of case results the summary has \<open>TotalCases\<close> equal to the
  length of the list, \<open>PassRate = PassedCases / TotalCases * 100\<close> when \<open>TotalCases > 0\<close> and
  \<open>PassRate = 0\<close> when \<open>TotalCases = 0\<close>. The summary of every completed batch is computed
  this way, a batch of a task without bindings has \<open>TotalCases = 0\<close> and \<open>PassRate = 0\<close>,
  and on a store that answers every call the batch of an existing task completes.
\<close>

theorem calculateSummary_pass_rate:
  "TotalCases (calculateSummary results) = int (length results)
   \<and> PassedCases (calculateSummary results)
       = int (length (filter (\<lambda>c. cer_Status c = ''passed'') results))
   \<and> (TotalCases (calculateSummary results) > 0 \<longrightarrow>
        PassRate (calculateSummary results)
          = real_of_int (PassedCases (calculateSummary results))
            / real_of_int (TotalCases (calculateSummary results)) * 100)
   \<and> (TotalCases (calculateSummary results) = 0 \<longrightarrow> PassRate (calculateSummary results) = 0)
   \<and> (ExecuteTask u w taskID = ((Some r, None), w') \<longrightarrow>
        ter_Summary r = calculateSummary (ter_Results r)
        \<and> (filter (\<lambda>x. rel_TaskID x = taskID) (taskcaserelevances w) = [] \<longrightarrow>
             TotalCases (ter_Summary r) = 0 \<and> PassRate (ter_Summary r) = 0))
   \<and> (faults w = [] \<and> taskID \<in> set (map task_ID (testtasks w)) \<longrightarrow>
        (\<exists>r w'. ExecuteTask u w taskID = ((Some r, None), w')))"
proof -
  have a: "ExecuteTask u w taskID = ((Some r, None), w') \<Longrightarrow>
        ter_Summary r = calculateSummary (ter_Results r)
        \<and> (filter (\<lambda>x. rel_TaskID x = taskID) (taskcaserelevances w) = [] \<longrightarrow>
             TotalCases (ter_Summary r) = 0 \<and> PassRate (ter_Summary r) = 0)"
  proof -
    assume e: "ExecuteTask u w taskID = ((Some r, None), w')"
    from ExecuteTask_shape[OF e] obtain w4 w5 where
      rc: "run_cases u taskID w4 [] (filter (\<lambda>x. rel_TaskID x = taskID) (taskcaserelevances w))
             = (ter_Results r, w5)"
      and sm: "ter_Summary r = calculateSummary (ter_Results r)" by blast
    show ?thesis
    proof (intro conjI impI)
      show "ter_Summary r = calculateSummary (ter_Results r)" by (rule sm)
    next
      assume "filter (\<lambda>x. rel_TaskID x = taskID) (taskcaserelevances w) = []"
      with rc have "ter_Results r = []" by simp
      with sm show "TotalCases (ter_Summary r) = 0" by (simp add: calculateSummary_fields)
    next
      assume "filter (\<lambda>x. rel_TaskID x = taskID) (taskcaserelevances w) = []"
      with rc have "ter_Results r = []" by simp
      with sm show "PassRate (ter_Summary r) = 0" by (simp add: calculateSummary_fields)
    qed
  qed
  have b: "faults w = [] \<and> taskID \<in> set (map task_ID (testtasks w)) \<Longrightarrow>
        (\<exists>r w'. ExecuteTask u w taskID = ((Some r, None), w'))"
    using ExecuteTask_returns by blast
  have c: "TotalCases (calculateSummary results) > 0 \<longrightarrow>
        PassRate (calculateSummary results)
          = real_of_int (PassedCases (calculateSummary results))
            / real_of_int (TotalCases (calculateSummary results)) * 100"
    by (auto simp: calculateSummary_fields)
  have d: "TotalCases (calculateSummary results) = 0 \<longrightarrow> PassRate (calculateSummary results) = 0"
    by (simp add: calculateSummary_fields)
  from a b c d calculateSummary_fields(1,2)[of results] show ?thesis by blast
qed


subsection \<open>Status and report written at the end of a batch\<close>

lemma statusInt_done:
  "statusInt ''success'' = 2" "statusInt ''failed'' = 2" "statusInt ''running'' = 1"
  by (simp_all add: statusInt_def)

lemma updateTaskStatus_keeps:
  "keeps_rows (w\<lparr>testtasks := testtasks (snd (updateTaskStatus w t st m))\<rparr>)
              (snd (updateTaskStatus w t st m))
   \<and> caseresults (snd (updateTaskStatus w t st m)) = caseresults w
   \<and> clock (snd (updateTaskStatus w t st m)) = clock w
   \<and> logged (snd (updateTaskStatus w t st m)) = logged w"
  by (simp add: updateTaskStatus_def Save_TestTask_def db_call_eq keeps_rows_def Let_def
      split: list.splits option.splits)

lemma Save_TestTask_healthy:
  assumes "faults w = []" and "task_ID t \<in> set (map task_ID (testtasks w))"
  shows "Save_TestTask w t =
           (None, w\<lparr>testtasks :=
                     map (\<lambda>r. if task_ID r = task_ID t then t\<lparr>task_UpdateTime := clock w\<rparr> else r)
                         (testtasks w)\<rparr>)"
  using assms by (simp add: Save_TestTask_def db_call_healthy)

lemma map_replace_ids:
  "map task_ID (map (\<lambda>r. if task_ID r = task_ID t then t\<lparr>task_UpdateTime := c\<rparr> else r) rows)
     = map task_ID rows"
  by (induction rows) auto

lemma map_replace_twice:
  assumes "task_ID t' = task_ID t"
  shows "map (\<lambda>r. if task_ID r = task_ID t' then t' else r)
             (map (\<lambda>r. if task_ID r = task_ID t then t else r) rows)
         = map (\<lambda>r. if task_ID r = task_ID t' then t' else r) rows"
  using assms by (induction rows) auto

lemma saveTaskReport_eq:
  "saveTaskReport w taskID result =
     (case faults w of
        Some e # fs \<Rightarrow>
          Logger_LogError (w\<lparr>faults := fs\<rparr>) ''SAVE_TASK_REPORT'' (msg_save_report_failed @ e)
            [(''task_id'', VUint taskID)]
      | _ \<Rightarrow>
          w\<lparr>faults := tl (faults w),
            taskreports := taskreports w @
              [\<lparr>rep_ID = next_pk rep_ID (taskreports w), rep_TaskID = taskID,
                rep_Name = ''Task '' @ Sprintf_d (int taskID) @ '' Execution Report'',
                rep_Report = ''Task executed with status: '' @ ter_Status result,
                rep_Passed = PassedCases (ter_Summary result),
                rep_Error = FailedCases (ter_Summary result),
                rep_Failure = FailedCases (ter_Summary result),
                rep_Skipped = SkippedCases (ter_Summary result),
                rep_Tests = TotalCases (ter_Summary result),
                rep_RunTime = Sprintf_2f (Duration_Seconds (ter_Duration result)) @ ''s'',
                rep_CreateTime = clock w\<rparr>]\<rparr>)"
  by (simp add: saveTaskReport_def Create_TaskReport_def db_call_eq Let_def
      split: list.splits option.splits)


lemma ExecuteTask_healthy:
  assumes h: "faults w = []" and m: "taskID \<in> set (map task_ID (testtasks w))"
  obtains t r w' w4 w5 row where
    "First_TestTask w taskID = (Inr t, w)" and "task_ID t = taskID"
    and "ExecuteTask u w taskID = ((Some r, None), w')"
    and "faults w4 = []" and "testcases w4 = testcases w" and "caseresults w4 = caseresults w"
    and "clock w4 = clock w"
    and "run_cases u taskID w4 []
               (filter (\<lambda>x. rel_TaskID x = taskID) (taskcaserelevances w)) = (ter_Results r, w5)"
    and "ter_Summary r = calculateSummary (ter_Results r)"
    and "ter_Status r = (if FailedCases (ter_Summary r) > 0 then ''failed'' else ''success'')"
    and "testtasks w' =
               map (\<lambda>x. if task_ID x = taskID
                         then t\<lparr>task_Status := 2, task_UpdateTime := clock w5\<rparr> else x)
                   (testtasks w)"
    and "taskreports w' = taskreports w @ [row]"
    and "rep_TaskID row = taskID"
    and "rep_Report row = ''Task executed with status: '' @ ter_Status r"
    and "rep_Passed row = PassedCases (ter_Summary r)"
    and "rep_Error row = FailedCases (ter_Summary r)"
    and "rep_Failure row = FailedCases (ter_Summary r)"
    and "rep_Skipped row = SkippedCases (ter_Summary r)"
    and "rep_Tests row = TotalCases (ter_Summary r)"
    and "rep_RunTime row = Sprintf_2f (Duration_Seconds (ter_Duration r)) @ ''s''"
    and "caseresults w' = caseresults w5" and "clock w' = clock w5"
proof -
  from First_TestTask_healthy[OF h m] obtain t where
    f: "First_TestTask w taskID = (Inr t, w)" and tid: "task_ID t = taskID" by blast
  from ExecuteTask_returns[OF h m] obtain r w' where
    e: "ExecuteTask u w taskID = ((Some r, None), w')" by blast
  define task where "task = t\<lparr>task_Status := 1\<rparr>"
  define w2 where "w2 = snd (Save_TestTask w task)"
  from ExecuteTask_shape[OF e] f obtain w4 w5 where
    k4: "keeps_rows w2 w4" and c4: "caseresults w4 = caseresults w" "clock w4 = clock w"
    and rc: "run_cases u taskID w4 []
               (filter (\<lambda>x. rel_TaskID x = taskID) (taskcaserelevances w)) = (ter_Results r, w5)"
    and sm: "ter_Summary r = calculateSummary (ter_Results r)"
    and st: "ter_Status r = (if FailedCases (ter_Summary r) > 0 then ''failed'' else ''success'')"
    and w': "w' = Logger_LogInfo
                  (saveTaskReport (snd (updateTaskStatus w5 task (ter_Status r) [])) taskID r)
                  ''TASK_EXECUTION'' (msg_task_finished @ Sprintf_d (int taskID))
                  [(''task_id'', VUint taskID),
                   (''status'', VString (ter_Status r)),
                   (''duration'', VString (Duration_String (ter_Duration r))),
                   (''total_cases'', VInt (TotalCases (ter_Summary r))),
                   (''passed_cases'', VInt (PassedCases (ter_Summary r))),
                   (''failed_cases'', VInt (FailedCases (ter_Summary r)))]"
    unfolding w2_def task_def by auto
  have tm: "task_ID task \<in> set (map task_ID (testtasks w))" using m tid by (simp add: task_def)
  have w2: "w2 = w\<lparr>testtasks :=
                     map (\<lambda>r. if task_ID r = task_ID task then task\<lparr>task_UpdateTime := clock w\<rparr> else r)
                         (testtasks w)\<rparr>"
    unfolding w2_def using Save_TestTask_healthy[OF h tm] by simp
  from k4 rc run_cases_keeps[of w4 u taskID "[]"
        "filter (\<lambda>x. rel_TaskID x = taskID) (taskcaserelevances w)"]
  have k5: "keeps_rows w2 w5" by (auto intro: keeps_rows_trans)
  have h2: "faults w2 = []" using w2 h by simp
  with k4 have h4: "faults w4 = []" by (simp add: keeps_rows_def)
  from h2 k5 have h5: "faults w5 = []" by (simp add: keeps_rows_def)
  from k4 w2 have tc4: "testcases w4 = testcases w" by (simp add: keeps_rows_def)
  from k5 w2 have tt5: "testtasks w5 =
      map (\<lambda>r. if task_ID r = task_ID task then task\<lparr>task_UpdateTime := clock w\<rparr> else r) (testtasks w)"
    and tr5: "taskreports w5 = taskreports w"
    by (simp_all add: keeps_rows_def)
  have sint: "statusInt (ter_Status r) = 2" using st by (simp add: statusInt_done)
  define task' where "task' = task\<lparr>task_Status := 2\<rparr>"
  have tm5: "task_ID task' \<in> set (map task_ID (testtasks w5))"
    unfolding tt5 map_replace_ids using tm by (simp add: task'_def)
  define w6 where "w6 = snd (updateTaskStatus w5 task (ter_Status r) [])"
  have w6: "w6 = w5\<lparr>testtasks :=
              map (\<lambda>r. if task_ID r = task_ID task' then task'\<lparr>task_UpdateTime := clock w5\<rparr> else r)
                  (testtasks w5)\<rparr>"
    unfolding w6_def updateTaskStatus_def Let_def sint
    using Save_TestTask_healthy[OF h5 tm5] by (simp add: task'_def)
  have ids: "task_ID (task'\<lparr>task_UpdateTime := clock w5\<rparr>) = task_ID (task\<lparr>task_UpdateTime := clock w\<rparr>)"
    by (simp add: task'_def)
  have tt6: "testtasks w6 =
      map (\<lambda>x. if task_ID x = taskID then t\<lparr>task_Status := 2, task_UpdateTime := clock w5\<rparr> else x)
          (testtasks w)"
  proof -
    have "testtasks w6 =
        map (\<lambda>r. if task_ID r = task_ID (task'\<lparr>task_UpdateTime := clock w5\<rparr>)
                  then task'\<lparr>task_UpdateTime := clock w5\<rparr> else r)
          (map (\<lambda>r. if task_ID r = task_ID (task\<lparr>task_UpdateTime := clock w\<rparr>)
                    then task\<lparr>task_UpdateTime := clock w\<rparr> else r) (testtasks w))"
      unfolding w6 tt5 by simp
    also have "\<dots> = map (\<lambda>r. if task_ID r = task_ID (task'\<lparr>task_UpdateTime := clock w5\<rparr>)
                  then task'\<lparr>task_UpdateTime := clock w5\<rparr> else r) (testtasks w)"
      by (rule map_replace_twice[OF ids])
    also have "\<dots> = map (\<lambda>x. if task_ID x = taskID
                  then t\<lparr>task_Status := 2, task_UpdateTime := clock w5\<rparr> else x) (testtasks w)"
      by (simp add: task'_def task_def tid)
    finally show ?thesis .
  qed
  have h6: "faults w6 = []" using w6 h5 by simp
  have rest6: "taskreports w6 = taskreports w" "caseresults w6 = caseresults w5" "clock w6 = clock w5"
    using w6 tr5 by simp_all
  have w'2: "w' = Logger_LogInfo (saveTaskReport w6 taskID r)
                  ''TASK_EXECUTION'' (msg_task_finished @ Sprintf_d (int taskID))
                  [(''task_id'', VUint taskID),
                   (''status'', VString (ter_Status r)),
                   (''duration'', VString (Duration_String (ter_Duration r))),
                   (''total_cases'', VInt (TotalCases (ter_Summary r))),
                   (''passed_cases'', VInt (PassedCases (ter_Summary r))),
                   (''failed_cases'', VInt (FailedCases (ter_Summary r)))]"
    using w' by (simp add: w6_def)
  have fin: "testtasks w' = testtasks w6 \<and> caseresults w' = caseresults w5 \<and> clock w' = clock w5
     \<and> taskreports w' = taskreports w @
               [\<lparr>rep_ID = next_pk rep_ID (taskreports w), rep_TaskID = taskID,
                 rep_Name = ''Task '' @ Sprintf_d (int taskID) @ '' Execution Report'',
                 rep_Report = ''Task executed with status: '' @ ter_Status r,
                 rep_Passed = PassedCases (ter_Summary r),
                 rep_Error = FailedCases (ter_Summary r),
                 rep_Failure = FailedCases (ter_Summary r),
                 rep_Skipped = SkippedCases (ter_Summary r),
                 rep_Tests = TotalCases (ter_Summary r),
                 rep_RunTime = Sprintf_2f (Duration_Seconds (ter_Duration r)) @ ''s'',
                 rep_CreateTime = clock w5\<rparr>]"
    unfolding w'2 saveTaskReport_eq using h6 rest6 by (simp add: Logger_LogInfo_def)
  define row where "row = \<lparr>rep_ID = next_pk rep_ID (taskreports w), rep_TaskID = taskID,
                 rep_Name = ''Task '' @ Sprintf_d (int taskID) @ '' Execution Report'',
                 rep_Report = ''Task executed with status: '' @ ter_Status r,
                 rep_Passed = PassedCases (ter_Summary r),
                 rep_Error = FailedCases (ter_Summary r),
                 rep_Failure = FailedCases (ter_Summary r),
                 rep_Skipped = SkippedCases (ter_Summary r),
                 rep_Tests = TotalCases (ter_Summary r),
                 rep_RunTime = Sprintf_2f (Duration_Seconds (ter_Duration r)) @ ''s'',
                 rep_CreateTime = clock w5\<rparr>"
  from fin have tr: "taskreports w' = taskreports w @ [row]" by (simp add: row_def)
  show ?thesis
    by (rule that[of t r w' w4 w5 row])
       (use f tid e h4 tc4 c4 rc sm st tt6 fin tr in \<open>simp_all add: row_def\<close>)
qed


lemma ExecuteTask_aborted_taskreports:
  assumes "ExecuteTask u w taskID = ((res, Some e), w')"
  shows "taskreports w' = taskreports w"
proof -
  obtain x w1 where f: "First_TestTask w taskID = (x, w1)" by (cases "First_TestTask w taskID")
  have w1: "w1 = w\<lparr>faults := tl (faults w)\<rparr>"
    using First_TestTask_world[of w taskID] f by simp
  show ?thesis
  proof (cases x)
    case (Inl err)
    with assms f w1 show ?thesis by (auto simp: ExecuteTask_def)
  next
    case (Inr t)
    define w2 where "w2 = snd (Save_TestTask w1 (t\<lparr>task_Status := 1\<rparr>))"
    have r2: "taskreports w2 = taskreports w"
      unfolding w2_def using Save_TestTask_keeps[of w1 "t\<lparr>task_Status := 1\<rparr>"] w1 by simp
    from assms f Inr show ?thesis
      using r2 updateTaskStatus_keeps
      by (auto simp: ExecuteTask_def Let_def w2_def[symmetric] Find_TaskCaseRelevance_eq
            Logger_LogInfo_def keeps_rows_def
          split: list.splits option.splits prod.splits if_splits)
  qed
qed

lemma ExecuteTask_completed_taskreports:
  assumes "ExecuteTask u w taskID = ((Some r, None), w')"
  shows "taskreports w' = taskreports w \<or>
         (\<exists>row. taskreports w' = taskreports w @ [row]
                \<and> rep_Error row = FailedCases (ter_Summary r)
                \<and> rep_Failure row = FailedCases (ter_Summary r))"
proof -
  from ExecuteTask_shape[OF assms] obtain t w1 w4 w5 where
    f: "First_TestTask w taskID = (Inr t, w1)"
    and k4: "keeps_rows (snd (Save_TestTask w1 (t\<lparr>task_Status := 1\<rparr>))) w4"
    and rc: "run_cases u taskID w4 []
               (filter (\<lambda>x. rel_TaskID x = taskID) (taskcaserelevances w)) = (ter_Results r, w5)"
    and w': "w' = Logger_LogInfo
                  (saveTaskReport (snd (updateTaskStatus w5 (t\<lparr>task_Status := 1\<rparr>) (ter_Status r) []))
                     taskID r)
                  ''TASK_EXECUTION'' (msg_task_finished @ Sprintf_d (int taskID))
                  [(''task_id'', VUint taskID),
                   (''status'', VString (ter_Status r)),
                   (''duration'', VString (Duration_String (ter_Duration r))),
                   (''total_cases'', VInt (TotalCases (ter_Summary r))),
                   (''passed_cases'', VInt (PassedCases (ter_Summary r))),
                   (''failed_cases'', VInt (FailedCases (ter_Summary r)))]"
    by blast
  have w1: "w1 = w\<lparr>faults := tl (faults w)\<rparr>"
    using First_TestTask_world[of w taskID] f by simp
  have r4: "taskreports w4 = taskreports w"
    using k4 Save_TestTask_keeps[of w1 "t\<lparr>task_Status := 1\<rparr>"] w1 by (simp add: keeps_rows_def)
  have r5: "taskreports w5 = taskreports w"
    using run_cases_keeps[of w4 u taskID "[]"
        "filter (\<lambda>x. rel_TaskID x = taskID) (taskcaserelevances w)"] rc r4
    by (simp add: keeps_rows_def)
  define w6 where "w6 = snd (updateTaskStatus w5 (t\<lparr>task_Status := 1\<rparr>) (ter_Status r) [])"
  have r6: "taskreports w6 = taskreports w"
    unfolding w6_def using updateTaskStatus_keeps[of w5 "t\<lparr>task_Status := 1\<rparr>" "ter_Status r" "[]"] r5
    by (simp add: keeps_rows_def)
  have "taskreports w' = taskreports (saveTaskReport w6 taskID r)"
    unfolding w' w6_def by (simp add: Logger_LogInfo_def)
  then show ?thesis
    unfolding saveTaskReport_eq using r6
    by (auto simp: Logger_LogError_def split: list.splits option.splits)
qed

text \<open>
  Claim C9. The report row that \<^verbatim>\<open>saveTaskReport\<close> writes has \<open>Error\<close> and \<open>Failure\<close> both
  equal to the summary's \<open>FailedCases\<close>. A run of \<^verbatim>\<open>ExecuteTask\<close> leaves the report table
  as it was or appends exactly one such row; on a store that answers every call it appends
  the row.
\<close>

theorem task_report_error_equals_failure:
  "(fst (db_call w0) = None \<longrightarrow>
      (\<exists>row. taskreports (saveTaskReport w0 taskID result) = taskreports w0 @ [row]
            \<and> rep_Error row = FailedCases (ter_Summary result)
            \<and> rep_Failure row = FailedCases (ter_Summary result)))
   \<and> (ExecuteTask u w taskID = ((res, err), w') \<longrightarrow>
        taskreports w' = taskreports w \<or>
        (\<exists>r row. res = Some r \<and> err = None \<and> taskreports w' = taskreports w @ [row]
              \<and> rep_Error row = FailedCases (ter_Summary r)
              \<and> rep_Failure row = FailedCases (ter_Summary r)))
   \<and> (faults w = [] \<and> taskID \<in> set (map task_ID (testtasks w)) \<longrightarrow>
        (\<exists>r row. fst (ExecuteTask u w taskID) = (Some r, None)
              \<and> taskreports (snd (ExecuteTask u w taskID)) = taskreports w @ [row]
              \<and> rep_Error row = FailedCases (ter_Summary r)
              \<and> rep_Failure row = FailedCases (ter_Summary r)))"
proof (intro conjI impI)
  assume "fst (db_call w0) = None"
  then show "\<exists>row. taskreports (saveTaskReport w0 taskID result) = taskreports w0 @ [row]
            \<and> rep_Error row = FailedCases (ter_Summary result)
            \<and> rep_Failure row = FailedCases (ter_Summary result)"
    unfolding saveTaskReport_eq by (auto simp: db_call_eq split: list.splits option.splits)
next
  assume e: "ExecuteTask u w taskID = ((res, err), w')"
  show "taskreports w' = taskreports w \<or>
        (\<exists>r row. res = Some r \<and> err = None \<and> taskreports w' = taskreports w @ [row]
              \<and> rep_Error row = FailedCases (ter_Summary r)
              \<and> rep_Failure row = FailedCases (ter_Summary r))"
  proof (cases err)
    case (Some x)
    with e ExecuteTask_aborted_taskreports show ?thesis by blast
  next
    case None
    with e obtain r where r: "res = Some r"
      by (cases res) (auto simp: ExecuteTask_def Let_def split: prod.splits sum.splits)
    with e None ExecuteTask_completed_taskreports[of u w taskID r w'] show ?thesis by blast
  qed
next
  assume "faults w = [] \<and> taskID \<in> set (map task_ID (testtasks w))"
  then have h: "faults w = []" and m: "taskID \<in> set (map task_ID (testtasks w))" by simp_all
  show "\<exists>r row. fst (ExecuteTask u w taskID) = (Some r, None)
              \<and> taskreports (snd (ExecuteTask u w taskID)) = taskreports w @ [row]
              \<and> rep_Error row = FailedCases (ter_Summary r)
              \<and> rep_Failure row = FailedCases (ter_Summary r)"
  proof (rule ExecuteTask_healthy[OF h m, of u], goal_cases)
    case (1 t r w' w4 w5 row)
    from 1(3) 1(12) have "fst (ExecuteTask u w taskID) = (Some r, None)"
      and "taskreports (snd (ExecuteTask u w taskID)) = taskreports w @ [row]" by simp_all
    with 1(16) 1(17) show ?case by blast
  qed
qed


text \<open>
  Claim C8. \<^verbatim>\<open>updateTaskStatus\<close> maps \<^verbatim>\<open>success\<close> and \<^verbatim>\<open>failed\<close> to one code, which
  differs from 0 (idle) and from the code of \<^verbatim>\<open>running\<close>; called with either word it
  returns the same record and the same world. For a batch on a store that answers every
  call: the outcome is \<^verbatim>\<open>success\<close> or \<^verbatim>\<open>failed\<close> (failed exactly when a case failed),
  every row of the task ends with status 2 and is otherwise the row read at the start
  with the update time set, and the outcome is written in the text of the appended report.
\<close>

theorem batch_persists_single_done_code:
  "statusInt ''success'' = statusInt ''failed''
   \<and> statusInt ''success'' \<noteq> 0 \<and> statusInt ''success'' \<noteq> statusInt ''running''
   \<and> updateTaskStatus w0 task ''success'' m1 = updateTaskStatus w0 task ''failed'' m2
   \<and> (faults w = [] \<and> taskID \<in> set (map task_ID (testtasks w)) \<longrightarrow>
        (\<exists>t r w' row.
            First_TestTask w taskID = (Inr t, w)
          \<and> ExecuteTask u w taskID = ((Some r, None), w')
          \<and> (ter_Status r = ''success'' \<or> ter_Status r = ''failed'')
          \<and> (ter_Status r = ''failed'' \<longleftrightarrow> FailedCases (ter_Summary r) > 0)
          \<and> testtasks w' =
                map (\<lambda>x. if task_ID x = taskID
                          then t\<lparr>task_Status := 2, task_UpdateTime := clock w'\<rparr> else x)
                    (testtasks w)
          \<and> taskreports w' = taskreports w @ [row]
          \<and> rep_Report row = ''Task executed with status: '' @ ter_Status r))"
proof (intro conjI impI)
  show "statusInt ''success'' = statusInt ''failed''" by (simp add: statusInt_def)
  show "statusInt ''success'' \<noteq> 0" by (simp add: statusInt_def)
  show "statusInt ''success'' \<noteq> statusInt ''running''" by (simp add: statusInt_def)
  show "updateTaskStatus w0 task ''success'' m1 = updateTaskStatus w0 task ''failed'' m2"
    by (simp add: updateTaskStatus_def statusInt_def)
next
  assume "faults w = [] \<and> taskID \<in> set (map task_ID (testtasks w))"
  then have h: "faults w = []" and m: "taskID \<in> set (map task_ID (testtasks w))" by simp_all
  show "\<exists>t r w' row.
            First_TestTask w taskID = (Inr t, w)
          \<and> ExecuteTask u w taskID = ((Some r, None), w')
          \<and> (ter_Status r = ''success'' \<or> ter_Status r = ''failed'')
          \<and> (ter_Status r = ''failed'' \<longleftrightarrow> FailedCases (ter_Summary r) > 0)
          \<and> testtasks w' =
                map (\<lambda>x. if task_ID x = taskID
                          then t\<lparr>task_Status := 2, task_UpdateTime := clock w'\<rparr> else x)
                    (testtasks w)
          \<and> taskreports w' = taskreports w @ [row]
          \<and> rep_Report row = ''Task executed with status: '' @ ter_Status r"
  proof (rule ExecuteTask_healthy[OF h m, of u], goal_cases)
    case (1 t r w' w4 w5 row)
    from 1(10) have s1: "ter_Status r = ''success'' \<or> ter_Status r = ''failed''"
      and s2: "ter_Status r = ''failed'' \<longleftrightarrow> FailedCases (ter_Summary r) > 0" by auto
    from 1(11) 1(22) have tt: "testtasks w' =
                map (\<lambda>x. if task_ID x = taskID
                          then t\<lparr>task_Status := 2, task_UpdateTime := clock w'\<rparr> else x)
                    (testtasks w)" by simp
    from 1(1) 1(3) s1 s2 tt 1(12) 1(14) show ?case by blast
  qed
qed


subsection \<open>A batch over a resolved and an unresolved binding\<close>

lemma Millisecond_value: "int Millisecond = 1000000"
  by (simp add: Millisecond_def Microsecond_def Nanosecond_def)

lemma Time_Sub_self [simp]: "Time_Sub c c = 0"
  by (simp add: Time_Sub_def minDuration_def maxDuration_def)

lemma Time_Sub_at_least:
  assumes "c + 100000000 \<le> c'"
  shows "100000000 \<le> Time_Sub c' c"
  using assms by (simp add: Time_Sub_def minDuration_def maxDuration_def Let_def)

lemma time_Sleep_frame [simp]:
  "testtasks (time_Sleep w d) = testtasks w"
  "taskcaserelevances (time_Sleep w d) = taskcaserelevances w"
  "testcases (time_Sleep w d) = testcases w"
  "caseresults (time_Sleep w d) = caseresults w"
  "taskreports (time_Sleep w d) = taskreports w"
  "faults (time_Sleep w d) = faults w"
  "logged (time_Sleep w d) = logged w"
  "dispatched (time_Sleep w d) = dispatched w"
  by (simp_all add: time_Sleep_def split: list.splits)

lemma time_Sleep_at_least: "clock w + max 0 d \<le> clock (time_Sleep w d)"
  by (simp add: time_Sleep_def split: list.splits)

lemma sleep_100ms_at_least: "clock w + 100000000 \<le> clock (time_Sleep w (100 * int Millisecond))"
  using time_Sleep_at_least[of w "100 * int Millisecond"] by (simp add: Millisecond_value)

lemma executeSingleCase_passes:
  assumes "faults w = []"
    and "first_by_pk tc_ID (filter (\<lambda>c. tc_ID c = caseID) (testcases w)) = Some c"
    and "unmarshal (tc_CaseDoc c) = None"
    and "w2 = time_Sleep w (100 * int Millisecond)"
  shows "executeSingleCase unmarshal w caseID =
           (\<lparr>cer_CaseID = caseID, cer_CaseName = tc_CaseName c, cer_Status = ''passed'',
             cer_StartTime = clock w, cer_EndTime = clock w2,
             cer_Duration = Time_Sub (clock w2) (clock w), cer_ErrorMsg = [],
             cer_Screenshots = [], cer_Logs = []\<rparr>,
            w2)"
  using assms
  by (simp add: executeSingleCase_def First_TestCase_def db_call_healthy Let_def runTestCase_def)

lemma saveCaseResult_healthy:
  assumes "faults w = []"
  shows "saveCaseResult w taskID c =
           w\<lparr>caseresults := caseresults w @
               [\<lparr>cr_ID = next_pk cr_ID (caseresults w), cr_CaseID = cer_CaseID c,
                 cr_Name = cer_CaseName c,
                 cr_Report = ''Status: '' @ cer_Status c @ '', Duration: ''
                               @ Duration_String (cer_Duration c),
                 cr_Passed = 0, cr_Error = 0, cr_Failure = 0, cr_Skipped = 0, cr_Tests = 0,
                 cr_SystemOut = [], cr_RunTime = Duration_Seconds (cer_Duration c),
                 cr_CreateTime = clock w\<rparr>]\<rparr>"
  using assms by (simp add: saveCaseResult_def Create_CaseResult_def db_call_healthy Let_def)

lemma run_cases_resolved_then_missing:
  assumes h: "faults w = []"
    and a: "first_by_pk tc_ID (filter (\<lambda>c. tc_CaseHash c = rel_CaseHash ra) (testcases w)) = Some cA"
    and a': "first_by_pk tc_ID (filter (\<lambda>c. tc_ID c = tc_ID cA) (testcases w)) = Some cA'"
    and u: "unmarshal (tc_CaseDoc cA') = None"
    and b: "filter (\<lambda>c. tc_CaseHash c = rel_CaseHash rb) (testcases w) = []"
    and w2: "w2 = time_Sleep w (100 * int Millisecond)"
    and d: "d = Time_Sub (clock w2) (clock w)"
  shows "run_cases unmarshal taskID w [] [ra, rb] =
           ([\<lparr>cer_CaseID = tc_ID cA, cer_CaseName = tc_CaseName cA', cer_Status = ''passed'',
              cer_StartTime = clock w, cer_EndTime = clock w2,
              cer_Duration = d, cer_ErrorMsg = [], cer_Screenshots = [], cer_Logs = []\<rparr>,
             \<lparr>cer_CaseID = 0, cer_CaseName = rel_CaseHash rb, cer_Status = ''failed'',
              cer_StartTime = clock w2, cer_EndTime = clock w2,
              cer_Duration = 0, cer_ErrorMsg = msg_case_missing @ ErrRecordNotFound,
              cer_Screenshots = [], cer_Logs = []\<rparr>],
            w2\<lparr>caseresults := caseresults w @
               [\<lparr>cr_ID = next_pk cr_ID (caseresults w), cr_CaseID = tc_ID cA,
                 cr_Name = tc_CaseName cA',
                 cr_Report = ''Status: passed, Duration: '' @ Duration_String d,
                 cr_Passed = 0, cr_Error = 0, cr_Failure = 0, cr_Skipped = 0, cr_Tests = 0,
                 cr_SystemOut = [], cr_RunTime = Duration_Seconds d,
                 cr_CreateTime = clock w2\<rparr>]\<rparr>)"
proof -
  have f1: "First_TestCase_by_hash w (rel_CaseHash ra) = (Inr cA, w)"
    using h a by (simp add: First_TestCase_by_hash_def db_call_healthy)
  define resA where "resA = \<lparr>cer_CaseID = tc_ID cA, cer_CaseName = tc_CaseName cA', cer_Status = ''passed'',
              cer_StartTime = clock w, cer_EndTime = clock w2,
              cer_Duration = d, cer_ErrorMsg = [], cer_Screenshots = [], cer_Logs = []\<rparr>"
  have e1: "executeSingleCase unmarshal w (tc_ID cA) = (resA, w2)"
    unfolding resA_def d
    by (rule executeSingleCase_passes[where w = w and c = cA' and unmarshal = unmarshal
          and caseID = "tc_ID cA" and ?w2.0 = w2, OF h a' u w2])
  have h2: "faults w2 = []" and t2: "testcases w2 = testcases w"
    and c2: "caseresults w2 = caseresults w"
    using h by (simp_all add: w2)
  note s1 = saveCaseResult_healthy[OF h2, of taskID resA]
  define w3 where "w3 = saveCaseResult w2 taskID resA"
  have h3: "faults w3 = []" and t3: "testcases w3 = testcases w" and c3: "clock w3 = clock w2"
    unfolding w3_def s1 using h2 t2 by simp_all
  have f2: "First_TestCase_by_hash w3 (rel_CaseHash rb) = (Inl ErrRecordNotFound, w3)"
    using h3 b t3 by (simp add: First_TestCase_by_hash_def db_call_healthy)
  have "run_cases unmarshal taskID w [] [ra, rb] =
          ([resA, \<lparr>cer_CaseID = 0, cer_CaseName = rel_CaseHash rb, cer_Status = ''failed'',
              cer_StartTime = clock w3, cer_EndTime = clock w3,
              cer_Duration = 0, cer_ErrorMsg = msg_case_missing @ ErrRecordNotFound,
              cer_Screenshots = [], cer_Logs = []\<rparr>], w3)"
    by (simp add: f1 e1 w3_def[symmetric] f2 Let_def)
  then show ?thesis
    unfolding c3 unfolding w3_def s1 c2 by (simp add: resA_def)
qed


lemma digit_char_simps:
  "digit_char 0 = CHR ''0''" "digit_char 1 = CHR ''1''" "digit_char (Suc 0) = CHR ''1''"
  "digit_char 2 = CHR ''2''" "digit_char 3 = CHR ''3''" "digit_char 4 = CHR ''4''"
  "digit_char 5 = CHR ''5''" "digit_char 6 = CHR ''6''" "digit_char 7 = CHR ''7''"
  "digit_char 8 = CHR ''8''" "digit_char 9 = CHR ''9''"
  unfolding digit_char_def by code_simp+

lemma calculateSummary_passed_failed:
  assumes "cer_Status a = ''passed''" and "cer_Status b = ''failed''"
  shows "calculateSummary [a, b] =
           \<lparr>TotalCases = 2, PassedCases = 1, FailedCases = 1, SkippedCases = 0, PassRate = 50\<rparr>"
  using assms by (simp add: calculateSummary_def tally_def Let_def)

lemma batch_resolved_then_missing:
  assumes h: "faults w = []" and m: "taskID \<in> set (map task_ID (testtasks w))"
    and bind: "filter (\<lambda>x. rel_TaskID x = taskID) (taskcaserelevances w) = [ra, rb]"
    and a: "First_TestCase_by_hash w (rel_CaseHash ra) = (Inr cA, w)"
    and a': "First_TestCase w (tc_ID cA) = (Inr cA', w)"
    and u: "unmarshal (tc_CaseDoc cA') = None"
    and b: "fst (First_TestCase_by_hash w (rel_CaseHash rb)) = Inl ErrRecordNotFound"
  shows "\<exists>r w' resA resB row report.
           ExecuteTask unmarshal w taskID = ((Some r, None), w')
         \<and> ter_Results r = [resA, resB]
         \<and> cer_CaseID resA = tc_ID cA \<and> cer_Status resA = ''passed''
         \<and> 100000000 \<le> cer_Duration resA
         \<and> cer_CaseName resB = rel_CaseHash rb \<and> cer_Status resB = ''failed''
         \<and> cer_ErrorMsg resB = msg_case_missing @ ErrRecordNotFound
         \<and> ter_Summary r =
              \<lparr>TotalCases = 2, PassedCases = 1, FailedCases = 1, SkippedCases = 0, PassRate = 50\<rparr>
         \<and> ter_Status r = ''failed''
         \<and> caseresults w' = caseresults w @ [row]
         \<and> cr_CaseID row = tc_ID cA \<and> cr_Name row = tc_CaseName cA'
         \<and> cr_Report row = ''Status: passed, Duration: '' @ Duration_String (cer_Duration resA)
         \<and> taskreports w' = taskreports w @ [report]
         \<and> rep_TaskID report = taskID
         \<and> rep_Report report = ''Task executed with status: failed''
         \<and> rep_Tests report = 2 \<and> rep_Passed report = 1
         \<and> rep_Failure report = 1 \<and> rep_Error report = 1 \<and> rep_Skipped report = 0"
proof (rule ExecuteTask_healthy[OF h m, of unmarshal], goal_cases)
  case (1 t r w' w4 w5 report)
  have fa: "first_by_pk tc_ID (filter (\<lambda>c. tc_CaseHash c = rel_CaseHash ra) (testcases w4)) = Some cA"
    using a h 1(5) by (auto simp: First_TestCase_by_hash_def db_call_healthy split: option.splits)
  have fa': "first_by_pk tc_ID (filter (\<lambda>c. tc_ID c = tc_ID cA) (testcases w4)) = Some cA'"
    using a' h 1(5) by (auto simp: First_TestCase_def db_call_healthy split: option.splits)
  have fb: "filter (\<lambda>c. tc_CaseHash c = rel_CaseHash rb) (testcases w4) = []"
    using b h 1(5) by (auto simp: First_TestCase_by_hash_def db_call_healthy split: option.splits)
  define w2 where "w2 = time_Sleep w4 (100 * int Millisecond)"
  define d where "d = Time_Sub (clock w2) (clock w4)"
  define resA where "resA =
          \<lparr>cer_CaseID = tc_ID cA, cer_CaseName = tc_CaseName cA', cer_Status = ''passed'',
              cer_StartTime = clock w4, cer_EndTime = clock w2,
              cer_Duration = d, cer_ErrorMsg = [], cer_Screenshots = [], cer_Logs = []\<rparr>"
  define resB where "resB =
          \<lparr>cer_CaseID = 0, cer_CaseName = rel_CaseHash rb, cer_Status = ''failed'',
              cer_StartTime = clock w2, cer_EndTime = clock w2,
              cer_Duration = 0, cer_ErrorMsg = msg_case_missing @ ErrRecordNotFound,
              cer_Screenshots = [], cer_Logs = []\<rparr>"
  define row where "row =
          \<lparr>cr_ID = next_pk cr_ID (caseresults w4), cr_CaseID = tc_ID cA,
                 cr_Name = tc_CaseName cA',
                 cr_Report = ''Status: passed, Duration: '' @ Duration_String d,
                 cr_Passed = 0, cr_Error = 0, cr_Failure = 0, cr_Skipped = 0, cr_Tests = 0,
                 cr_SystemOut = [], cr_RunTime = Duration_Seconds d,
                 cr_CreateTime = clock w2\<rparr>"
  note rc = run_cases_resolved_then_missing[of w4 ra cA cA' unmarshal rb w2 d taskID,
      OF 1(4) fa fa' u fb w2_def d_def]
  from 1(8) bind rc have res: "ter_Results r = [resA, resB]"
    and w5: "w5 = w2\<lparr>caseresults := caseresults w4 @ [row]\<rparr>"
    by (simp_all add: resA_def resB_def row_def)
  have dur: "100000000 \<le> d"
    unfolding d_def w2_def by (rule Time_Sub_at_least) (rule sleep_100ms_at_least)
  have sm: "ter_Summary r =
              \<lparr>TotalCases = 2, PassedCases = 1, FailedCases = 1, SkippedCases = 0, PassRate = 50\<rparr>"
    unfolding 1(9) res by (rule calculateSummary_passed_failed) (simp_all add: resA_def resB_def)
  have st: "ter_Status r = ''failed''" using 1(10) sm by simp
  have cr: "caseresults w' = caseresults w @ [row]"
    using 1(21) w5 1(6) by simp
  have rp: "rep_Report report = ''Task executed with status: failed''"
    "rep_Tests report = 2" "rep_Passed report = 1" "rep_Failure report = 1"
    "rep_Error report = 1" "rep_Skipped report = 0"
    using 1(14) 1(15) 1(16) 1(17) 1(18) 1(19) sm st by simp_all
  have A: "cer_CaseID resA = tc_ID cA \<and> cer_Status resA = ''passed'' \<and> cer_Duration resA = d"
    by (simp add: resA_def)
  have B: "cer_CaseName resB = rel_CaseHash rb \<and> cer_Status resB = ''failed''
         \<and> cer_ErrorMsg resB = msg_case_missing @ ErrRecordNotFound"
    by (simp add: resB_def)
  have R: "cr_CaseID row = tc_ID cA \<and> cr_Name row = tc_CaseName cA'
         \<and> cr_Report row = ''Status: passed, Duration: '' @ Duration_String d"
    by (simp add: row_def)
  show ?case
    apply (rule exI[of _ r], rule exI[of _ w'], rule exI[of _ resA], rule exI[of _ resB])
    apply (rule exI[of _ row], rule exI[of _ report])
    using 1(3) res sm st cr A B R dur 1(12) 1(13) rp by simp
qed


subsection \<open>Stop\<close>

lemma msg_not_running_neq:
  "msg_not_running \<noteq> msg_update_failed @ e" "msg_update_failed @ e \<noteq> msg_not_running"
  by (simp_all add: msg_not_running_def msg_update_failed_def)

lemma StopTask_frame:
  "taskcaserelevances (snd (StopTask w taskID)) = taskcaserelevances w
   \<and> testcases (snd (StopTask w taskID)) = testcases w
   \<and> caseresults (snd (StopTask w taskID)) = caseresults w
   \<and> taskreports (snd (StopTask w taskID)) = taskreports w
   \<and> dispatched (snd (StopTask w taskID)) = dispatched w
   \<and> clock (snd (StopTask w taskID)) = clock w"
proof -
  obtain x w1 where f: "First_TestTask w taskID = (x, w1)" by (cases "First_TestTask w taskID")
  have w1: "w1 = w\<lparr>faults := tl (faults w)\<rparr>"
    using First_TestTask_world[of w taskID] f by simp
  show ?thesis
  proof (cases x)
    case (Inl e)
    with f w1 show ?thesis by (simp add: StopTask_def)
  next
    case (Inr t)
    obtain y w2 where s: "Save_TestTask w1 (t\<lparr>task_Status := 2, task_UpdateTime := clock w1\<rparr>) = (y, w2)"
      by (cases "Save_TestTask w1 (t\<lparr>task_Status := 2, task_UpdateTime := clock w1\<rparr>)")
    from Save_TestTask_keeps[of w1 "t\<lparr>task_Status := 2, task_UpdateTime := clock w1\<rparr>"] s w1
    have k: "taskcaserelevances w2 = taskcaserelevances w \<and> testcases w2 = testcases w
       \<and> caseresults w2 = caseresults w \<and> taskreports w2 = taskreports w
       \<and> dispatched w2 = dispatched w \<and> clock w2 = clock w" by simp
    from f Inr s k w1 show ?thesis
      by (cases y) (simp_all add: StopTask_def Let_def Logger_LogInfo_def)
  qed
qed

lemma StopTask_failure_keeps_tasks:
  assumes "fst (StopTask w taskID) \<noteq> None"
  shows "testtasks (snd (StopTask w taskID)) = testtasks w"
proof -
  obtain x w1 where f: "First_TestTask w taskID = (x, w1)" by (cases "First_TestTask w taskID")
  have w1: "w1 = w\<lparr>faults := tl (faults w)\<rparr>"
    using First_TestTask_world[of w taskID] f by simp
  show ?thesis
  proof (cases x)
    case (Inl e)
    with f w1 show ?thesis by (simp add: StopTask_def)
  next
    case (Inr t)
    show ?thesis
    proof (cases "task_Status t = 1")
      case False
      with f Inr w1 show ?thesis by (simp add: StopTask_def)
    next
      case True
      obtain y w2 where s: "Save_TestTask w1 (t\<lparr>task_Status := 2, task_UpdateTime := clock w1\<rparr>) = (y, w2)"
        by (cases "Save_TestTask w1 (t\<lparr>task_Status := 2, task_UpdateTime := clock w1\<rparr>)")
      with assms f Inr True obtain e where y: "y = Some e"
        by (cases y) (auto simp: StopTask_def Let_def)
      from s y have "testtasks w2 = testtasks w1"
        by (auto simp: Save_TestTask_def db_call_eq split: list.splits option.splits if_splits)
      with f Inr True s y w1 show ?thesis by (simp add: StopTask_def Let_def)
    qed
  qed
qed

text \<open>
  Claim C4. For a task that the store returns, \<^verbatim>\<open>StopTask\<close> fails with the state error
  (``the task is not running'') exactly when the status of the task is not 1. Whenever
  \<^verbatim>\<open>StopTask\<close> fails, the task table is unchanged. When the status is 1 and the store
  accepts the write, \<^verbatim>\<open>StopTask\<close> succeeds and the rows of the task carry status 2 and
  the time of the call. \<^verbatim>\<open>StopTask\<close> never touches the other tables, the dispatched
  batches or the clock: a batch in flight is not interrupted.
\<close>

theorem StopTask_state_error_iff_not_running:
  "(First_TestTask w taskID = (Inr t, w1) \<longrightarrow>
      (fst (StopTask w taskID) = Some msg_not_running \<longleftrightarrow> task_Status t \<noteq> 1))
   \<and> (fst (StopTask w taskID) \<noteq> None \<longrightarrow> testtasks (snd (StopTask w taskID)) = testtasks w)
   \<and> (First_TestTask w taskID = (Inr t, w1) \<and> task_Status t = 1 \<and> fst (db_call w1) = None \<longrightarrow>
        fst (StopTask w taskID) = None
        \<and> testtasks (snd (StopTask w taskID)) =
             map (\<lambda>r. if task_ID r = taskID
                       then t\<lparr>task_Status := 2, task_UpdateTime := clock w\<rparr> else r)
                 (testtasks w))
   \<and> taskcaserelevances (snd (StopTask w taskID)) = taskcaserelevances w
   \<and> testcases (snd (StopTask w taskID)) = testcases w
   \<and> caseresults (snd (StopTask w taskID)) = caseresults w
   \<and> taskreports (snd (StopTask w taskID)) = taskreports w
   \<and> dispatched (snd (StopTask w taskID)) = dispatched w
   \<and> clock (snd (StopTask w taskID)) = clock w"
proof -
  have a: "fst (StopTask w taskID) = Some msg_not_running \<longleftrightarrow> task_Status t \<noteq> 1"
    if f: "First_TestTask w taskID = (Inr t, w1)"
    using f msg_not_running_neq
    by (auto simp: StopTask_def Let_def split: prod.splits option.splits)
  have b: "fst (StopTask w taskID) = None
        \<and> testtasks (snd (StopTask w taskID)) =
             map (\<lambda>r. if task_ID r = taskID
                       then t\<lparr>task_Status := 2, task_UpdateTime := clock w\<rparr> else r)
                 (testtasks w)"
    if f: "First_TestTask w taskID = (Inr t, w1)" and r: "task_Status t = 1"
      and ok: "fst (db_call w1) = None"
  proof -
    from First_TestTask_Inr[OF f] have tid: "task_ID t = taskID" and mem: "t \<in> set (testtasks w)"
      and w1: "w1 = w\<lparr>faults := tl (faults w)\<rparr>" by simp_all
    from mem tid have m1: "taskID \<in> task_ID ` set (testtasks w)" by auto
    from ok obtain w2 where d: "db_call w1 = (None, w2)" and w2: "w2 = w1\<lparr>faults := tl (faults w1)\<rparr>"
      by (cases "db_call w1") (auto simp: db_call_eq)
    have "Save_TestTask w1 (t\<lparr>task_Status := 2, task_UpdateTime := clock w1\<rparr>) =
            (None, w2\<lparr>testtasks :=
               map (\<lambda>r. if task_ID r = taskID
                         then t\<lparr>task_Status := 2, task_UpdateTime := clock w\<rparr> else r)
                   (testtasks w)\<rparr>)"
      using d m1 tid by (simp add: Save_TestTask_def w2 w1)
    with f r show ?thesis by (simp add: StopTask_def Let_def Logger_LogInfo_def)
  qed
  from a b StopTask_failure_keeps_tasks[of w taskID] StopTask_frame[of w taskID]
  show ?thesis by blast
qed


subsection \<open>The due-handler\<close>

lemma last_digits: "last (digits n) = digit_char (n mod 10)"
  by (subst digits.simps) simp

lemma digits_not_Nil: "digits n \<noteq> []"
  by (subst digits.simps) simp

lemma last_Sprintf_d: "last (Sprintf_d i) = digit_char (nat \<bar>i\<bar> mod 10)"
  by (simp add: Sprintf_d_def last_digits digits_not_Nil)

lemma digit_char_not_g: "d < 10 \<Longrightarrow> digit_char d \<noteq> CHR ''g''"
proof
  assume d: "d < 10" and e: "digit_char d = CHR ''g''"
  from e have "(of_char (digit_char d) :: nat) = of_char (CHR ''g'')" by simp
  with d show False by (simp add: digit_char_def)
qed

lemma Sprintf_d_not_running: "Sprintf_d i \<noteq> ''running''"
proof
  assume "Sprintf_d i = ''running''"
  then have "last (Sprintf_d i) = CHR ''g''" by simp
  then show False using digit_char_not_g[of "nat \<bar>i\<bar> mod 10"] by (simp add: last_Sprintf_d)
qed

lemma executeScheduledTask_dispatches:
  assumes "First_TestTask w taskID = (Inr t, w1)"
  shows "dispatched (executeScheduledTask w taskID) = dispatched w @ [taskID]
       \<and> testtasks (executeScheduledTask w taskID) = testtasks w
       \<and> faults (executeScheduledTask w taskID) = tl (faults w)"
proof -
  define w0 where "w0 = Logger_LogInfo w ''SCHEDULER'' (msg_due_started @ Sprintf_d (int taskID))
                 [(''task_id'', VUint taskID)]"
  have "First_TestTask w0 taskID = (Inr t, w0\<lparr>faults := tl (faults w0)\<rparr>)"
    using assms by (auto simp: First_TestTask_def db_call_eq w0_def Logger_LogInfo_def
        split: list.splits option.splits)
  then show ?thesis
    by (simp add: executeScheduledTask_def w0_def[symmetric] GetTaskStatus_def Let_def
        Sprintf_d_not_running utils_LogInfo_def) (simp add: w0_def Logger_LogInfo_def)
qed

lemma due_repeatedly_dispatches:
  assumes "faults w = []" and "taskID \<in> set (map task_ID (testtasks w))"
  shows "dispatched (due_repeatedly n w taskID) = dispatched w @ replicate n taskID"
  using assms
proof (induction n arbitrary: w)
  case 0
  show ?case by simp
next
  case (Suc n)
  from First_TestTask_healthy[OF Suc.prems] obtain t where
    f: "First_TestTask w taskID = (Inr t, w)" by blast
  note d = executeScheduledTask_dispatches[OF f]
  have "dispatched (due_repeatedly n (executeScheduledTask w taskID) taskID)
          = dispatched (executeScheduledTask w taskID) @ replicate n taskID"
    using d Suc.prems by (intro Suc.IH) simp_all
  with d show ?case by (simp add: replicate_app_Cons_same)
qed


subsection \<open>Statistics\<close>


lemma wrap64_in_int64 [simp]: "in_int64 (wrap64 x)"
  by (simp add: wrap64_def in_int64_def)

lemma wrap64_id: "in_int64 x \<Longrightarrow> wrap64 x = x"
  by (simp add: wrap64_def in_int64_def)

lemma sum_durations_in_int64: "in_int64 t \<Longrightarrow> in_int64 (sum_durations t reports)"
  by (induction reports arbitrary: t) (auto split: option.splits)

lemma sum_durations_append:
  "sum_durations t (xs @ ys) = sum_durations (sum_durations t xs) ys"
  by (induction xs arbitrary: t) (auto split: option.splits)

lemma sum_durations_parsed:
  "sum_durations t reports = foldl (\<lambda>t d. wrap64 (t + d)) t (parsed_durations reports)"
  by (induction reports arbitrary: t) (auto simp: parsed_durations_def split: option.splits)

lemma isDigit_simps:
  "isDigit CHR ''0''" "isDigit CHR ''2''" "\<not> isDigit CHR ''s''" "\<not> isDigit CHR ''a''"
  "\<not> isDigit CHR ''.''"
  by (simp_all add: isDigit_def)

lemma ParseDuration_0s: "ParseDuration ''0s'' = Some 0"
  by (simp add: ParseDuration_def parse_units.simps parse_unit_def isDigit_simps digit_val_def
      notDigitDot_def unitMap_def Let_def)

lemma ParseDuration_2s: "ParseDuration ''2s'' = Some 2000000000"
  by (simp add: ParseDuration_def parse_units.simps parse_unit_def isDigit_simps digit_val_def
      notDigitDot_def unitMap_def Let_def Second_def Millisecond_def Microsecond_def Nanosecond_def)

lemma ParseDuration_abcs: "ParseDuration ''abcs'' = None"
  by (simp add: ParseDuration_def parse_units.simps parse_unit_def isDigit_simps Let_def)

lemma avgDuration_unparsable_as_zero:
  assumes "ParseDuration (rep_RunTime r @ ''s'') = None"
  shows "avgDuration (xs @ r # ys) = avgDuration (xs @ r\<lparr>rep_RunTime := ''0''\<rparr> # ys)"
proof -
  have "in_int64 (sum_durations 0 xs)"
    by (rule sum_durations_in_int64) (simp add: in_int64_def)
  then have "wrap64 (sum_durations 0 xs + 0) = sum_durations 0 xs"
    by (simp add: wrap64_id)
  then have "sum_durations 0 (xs @ r # ys) = sum_durations 0 (xs @ r\<lparr>rep_RunTime := ''0''\<rparr> # ys)"
    using assms by (simp add: sum_durations_append ParseDuration_0s)
  then show ?thesis by (simp add: avgDuration_def)
qed

text \<open>
  Every query of \<^verbatim>\<open>GetTaskStatistics\<close> bounds the column \<^verbatim>\<open>created_at\<close>, which the table
  of the reports does not have: the database refuses all four, and the statistics are those
  of a task without reports.
\<close>

lemma created_at_unknown:
  assumes "Between ''created_at'' lo hi \<in> set conds"
  shows "unknown_column conds \<noteq> None"
proof -
  have "''created_at'' \<notin> set TaskReport_columns"
    by (simp add: TaskReport_columns_def)
  moreover have "''created_at'' \<in> set (map cond_column conds)"
    using assms by force
  ultimately show ?thesis
    unfolding unknown_column_def find_None_iff by blast
qed

lemma select_TaskReport_refused:
  assumes "Between ''created_at'' lo hi \<in> set conds"
  shows "\<exists>e. fst (select_TaskReport w conds) = Inl e"
  using created_at_unknown[OF assms]
  by (auto simp: select_TaskReport_def split: prod.splits option.splits)

lemma Count_TaskReport_refused:
  assumes "Between ''created_at'' lo hi \<in> set conds"
  shows "(case fst (Count_TaskReport w conds) of Inl e \<Rightarrow> 0 | Inr n \<Rightarrow> n) = 0"
  using select_TaskReport_refused[OF assms, of w]
  by (auto simp: Count_TaskReport_def split: prod.splits sum.splits)

lemma Find_TaskReport_refused:
  assumes "Between ''created_at'' lo hi \<in> set conds"
  shows "(case fst (Find_TaskReport w conds) of Inl e \<Rightarrow> [] | Inr rs \<Rightarrow> rs) = []"
  using select_TaskReport_refused[OF assms, of w]
  by (auto simp: Find_TaskReport_def split: sum.splits)

lemma GetTaskStatistics_zero:
  "fst (GetTaskStatistics w taskID days) =
     \<lparr>total_runs = 0, success_runs = 0, failed_runs = 0, success_rate = 0, avg_duration = 0,
      period_days = days\<rparr>"
proof -
  define lo where "lo = clock w - days * 24 * int Hour"
  define window where "window = Between ''created_at'' lo (clock w)"
  define of_task where "of_task = Equals ''task_id'' (SqlInt (int taskID))"
  define q1 where "q1 = [of_task, window]"
  define q2 where "q2 = [of_task, Equals ''status'' (SqlText ''success''), window]"
  define q3 where "q3 = [of_task, Equals ''status'' (SqlText ''failed''), window]"
  have m: "Between ''created_at'' lo (clock w) \<in> set q1"
    "Between ''created_at'' lo (clock w) \<in> set q2"
    "Between ''created_at'' lo (clock w) \<in> set q3"
    by (simp_all add: q1_def q2_def q3_def window_def)
  obtain r1 w1 where c1: "Count_TaskReport w q1 = (r1, w1)" by (cases "Count_TaskReport w q1")
  obtain r2 w2 where c2: "Count_TaskReport w1 q2 = (r2, w2)" by (cases "Count_TaskReport w1 q2")
  obtain r3 w3 where c3: "Count_TaskReport w2 q3 = (r3, w3)" by (cases "Count_TaskReport w2 q3")
  obtain r4 w4 where c4: "Find_TaskReport w3 q1 = (r4, w4)" by (cases "Find_TaskReport w3 q1")
  have z1: "(case r1 of Inl e \<Rightarrow> 0 | Inr n \<Rightarrow> n) = 0"
    using Count_TaskReport_refused[OF m(1), of w] c1 by simp
  have z2: "(case r2 of Inl e \<Rightarrow> 0 | Inr n \<Rightarrow> n) = 0"
    using Count_TaskReport_refused[OF m(2), of w1] c2 by simp
  have z3: "(case r3 of Inl e \<Rightarrow> 0 | Inr n \<Rightarrow> n) = 0"
    using Count_TaskReport_refused[OF m(3), of w2] c3 by simp
  have z4: "(case r4 of Inl e \<Rightarrow> [] | Inr rs \<Rightarrow> rs) = []"
    using Find_TaskReport_refused[OF m(1), of w3] c4 by simp
  have "GetTaskStatistics w taskID days =
          (\<lparr>total_runs = 0, success_runs = 0, failed_runs = 0, success_rate = 0,
            avg_duration = avgDuration [], period_days = days\<rparr>, w4)"
    unfolding GetTaskStatistics_def Let_def
    unfolding lo_def[symmetric] window_def[symmetric] of_task_def[symmetric]
    unfolding q1_def[symmetric] q2_def[symmetric] q3_def[symmetric]
    by (simp add: c1 c2 c3 c4 z1 z2 z3 z4)
  then show ?thesis by (simp add: avgDuration_def)
qed


subsection \<open>The concrete worlds evaluated\<close>









lemma demo_world_fields:
  "faults demo_world = []" "testtasks demo_world = [demo_task]"
  "taskcaserelevances demo_world = [binding_A, binding_B]"
  "testcases demo_world = [demo_case]" "caseresults demo_world = []"
  "taskreports demo_world = []" "clock demo_world = 5000000000"
  "dispatched demo_world = []" "logged demo_world = []"
  by (simp_all add: demo_world_def)

lemma demo_rows:
  "task_ID demo_task = 1" "task_Status demo_task = 0"
  "tc_ID demo_case = 7" "tc_CaseHash demo_case = ''hashA''" "tc_CaseDoc demo_case = ''{}''"
  "tc_CaseName demo_case = ''test_login''"
  "rel_TaskID binding_A = 1" "rel_TaskID binding_B = 1"
  "rel_CaseHash binding_A = ''hashA''" "rel_CaseHash binding_B = ''hashB''"
  by (simp_all add: demo_task_def demo_case_def binding_A_def binding_B_def)

lemma demo_First_TestTask: "First_TestTask demo_world 1 = (Inr demo_task, demo_world)"
  by (simp add: First_TestTask_def db_call_healthy demo_world_fields demo_rows)

lemma demo_First_by_hash_A: "First_TestCase_by_hash demo_world ''hashA'' = (Inr demo_case, demo_world)"
  by (simp add: First_TestCase_by_hash_def db_call_healthy demo_world_fields demo_rows)

lemma demo_First_by_hash_B: "fst (First_TestCase_by_hash demo_world ''hashB'') = Inl ErrRecordNotFound"
  by (simp add: First_TestCase_by_hash_def db_call_healthy demo_world_fields demo_rows)

lemma demo_First_TestCase: "First_TestCase demo_world 7 = (Inr demo_case, demo_world)"
  by (simp add: First_TestCase_def db_call_healthy demo_world_fields demo_rows)

text \<open>
  Against claim C2 as stated: after the batch over the bindings \<^verbatim>\<open>hashA\<close> (resolves, runs)
  and \<^verbatim>\<open>hashB\<close> (does not resolve), the case result table holds one row, the one of the
  resolved case, and its text is the status \<^verbatim>\<open>passed\<close> and a duration; no row carries
  \<^verbatim>\<open>hashB\<close> or an error message.
\<close>

theorem missing_binding_not_persisted:
  "map cr_CaseID (caseresults (snd (ExecuteTask unmarshal_braces demo_world 1))) = [7]
   \<and> map cr_Name (caseresults (snd (ExecuteTask unmarshal_braces demo_world 1))) = [''test_login'']
   \<and> (\<exists>d. map cr_Report (caseresults (snd (ExecuteTask unmarshal_braces demo_world 1)))
             = [''Status: passed, Duration: '' @ Duration_String d])
   \<and> ''hashB'' \<notin> set (map cr_Name (caseresults (snd (ExecuteTask unmarshal_braces demo_world 1))))"
proof -
  have "\<exists>r w' resA resB row report.
           ExecuteTask unmarshal_braces demo_world 1 = ((Some r, None), w')
         \<and> ter_Results r = [resA, resB]
         \<and> cer_CaseID resA = tc_ID demo_case \<and> cer_Status resA = ''passed''
         \<and> 100000000 \<le> cer_Duration resA
         \<and> cer_CaseName resB = rel_CaseHash binding_B \<and> cer_Status resB = ''failed''
         \<and> cer_ErrorMsg resB = msg_case_missing @ ErrRecordNotFound
         \<and> ter_Summary r =
              \<lparr>TotalCases = 2, PassedCases = 1, FailedCases = 1, SkippedCases = 0, PassRate = 50\<rparr>
         \<and> ter_Status r = ''failed''
         \<and> caseresults w' = caseresults demo_world @ [row]
         \<and> cr_CaseID row = tc_ID demo_case \<and> cr_Name row = tc_CaseName demo_case
         \<and> cr_Report row = ''Status: passed, Duration: '' @ Duration_String (cer_Duration resA)
         \<and> taskreports w' = taskreports demo_world @ [report]
         \<and> rep_TaskID report = 1
         \<and> rep_Report report = ''Task executed with status: failed''
         \<and> rep_Tests report = 2 \<and> rep_Passed report = 1
         \<and> rep_Failure report = 1 \<and> rep_Error report = 1 \<and> rep_Skipped report = 0"
    by (rule batch_resolved_then_missing[where ra = binding_A and rb = binding_B
          and cA = demo_case and cA' = demo_case])
       (simp_all add: demo_world_fields demo_rows demo_First_by_hash_A demo_First_by_hash_B
          demo_First_TestCase unmarshal_braces_def)
  then show ?thesis
  proof (elim exE conjE, goal_cases)
    case (1 r w' resA resB row report)
    from 1(1) have w': "snd (ExecuteTask unmarshal_braces demo_world 1) = w'" by simp
    have "map cr_Report (caseresults (snd (ExecuteTask unmarshal_braces demo_world 1)))
            = [''Status: passed, Duration: '' @ Duration_String (cer_Duration resA)]"
      unfolding w' 1(11) using 1(14) by (simp add: demo_world_fields)
    then have "\<exists>d. map cr_Report (caseresults (snd (ExecuteTask unmarshal_braces demo_world 1)))
               = [''Status: passed, Duration: '' @ Duration_String d]" ..
    moreover have "map cr_CaseID (caseresults (snd (ExecuteTask unmarshal_braces demo_world 1))) = [7]"
      "map cr_Name (caseresults (snd (ExecuteTask unmarshal_braces demo_world 1))) = [''test_login'']"
      unfolding w' 1(11) using 1(12) 1(13) by (simp_all add: demo_world_fields demo_rows)
    ultimately show ?case by simp
  qed
qed


subsection \<open>Final status of every case\<close>

lemma executeSingleCase_status:
  "passed_or_failed (fst (executeSingleCase u w caseID))"
  by (simp add: executeSingleCase_def passed_or_failed_def Let_def runTestCase_def
      split: prod.splits sum.splits option.splits)

lemma run_cases_status:
  "list_all passed_or_failed results \<Longrightarrow>
   list_all passed_or_failed (fst (run_cases u taskID w results rels))"
proof (induction rels arbitrary: w results)
  case Nil
  then show ?case by simp
next
  case (Cons rel rels)
  show ?case
  proof (cases "First_TestCase_by_hash w (rel_CaseHash rel)")
    case (Pair r w1)
    show ?thesis
    proof (cases r)
      case (Inl err)
      with Pair Cons show ?thesis
        by (simp add: passed_or_failed_def)
    next
      case (Inr tc)
      obtain cres w2 where e: "executeSingleCase u w1 (tc_ID tc) = (cres, w2)"
        by (cases "executeSingleCase u w1 (tc_ID tc)")
      have "passed_or_failed cres"
        using executeSingleCase_status[of u w1 "tc_ID tc"] e by simp
      with Pair Inr e Cons show ?thesis by simp
    qed
  qed
qed


lemma fold_tally_counts:
  "list_all passed_or_failed rs \<Longrightarrow>
   SkippedCases (fold tally rs s) = SkippedCases s \<and>
   PassedCases (fold tally rs s) + FailedCases (fold tally rs s)
     = PassedCases s + FailedCases s + int (length rs)"
proof (induction rs arbitrary: s)
  case Nil
  then show ?case by simp
next
  case (Cons c rs)
  from Cons.prems have c: "passed_or_failed c" and rs: "list_all passed_or_failed rs"
    by simp_all
  from c have "SkippedCases (tally c s) = SkippedCases s
     \<and> PassedCases (tally c s) + FailedCases (tally c s) = PassedCases s + FailedCases s + 1"
    by (auto simp: tally_def passed_or_failed_def)
  with Cons.IH[OF rs, of "tally c s"] show ?case by simp
qed

lemma calculateSummary_counts:
  "list_all passed_or_failed rs \<Longrightarrow>
   SkippedCases (calculateSummary rs) = 0 \<and>
   PassedCases (calculateSummary rs) + FailedCases (calculateSummary rs) = TotalCases (calculateSummary rs)"
  using fold_tally_counts[of rs "\<lparr>TotalCases = int (length rs), PassedCases = 0, FailedCases = 0,
                      SkippedCases = 0, PassRate = 0\<rparr>"]
  by (simp add: calculateSummary_def Let_def)

lemma ExecuteTask_cases:
  assumes "ExecuteTask u w taskID = ((Some r, e), w')"
  shows "(ter_Results r = [] \<and> ter_Summary r = \<lparr>TotalCases = 0, PassedCases = 0, FailedCases = 0,
                                         SkippedCases = 0, PassRate = 0\<rparr> \<and> e \<noteq> None)
       \<or> (\<exists>w4 rels. ter_Results r = fst (run_cases u taskID w4 [] rels)
             \<and> ter_Summary r = calculateSummary (ter_Results r) \<and> e = None)"
  using assms
  apply (auto simp: ExecuteTask_def Let_def split: prod.splits sum.splits if_splits)
   apply (metis fst_conv)+
  done

text \<open>
  Claim C10. Every case result of every batch that returns a result has the final status
  \<^verbatim>\<open>passed\<close> or \<^verbatim>\<open>failed\<close>; the summary of the batch has \<open>SkippedCases = 0\<close> and
  \<open>PassedCases + FailedCases = TotalCases\<close>.
\<close>

theorem batch_results_passed_or_failed:
  assumes "ExecuteTask u w taskID = ((Some r, e), w')"
  shows "list_all passed_or_failed (ter_Results r)
       \<and> SkippedCases (ter_Summary r) = 0
       \<and> PassedCases (ter_Summary r) + FailedCases (ter_Summary r) = TotalCases (ter_Summary r)"
proof -
  from ExecuteTask_cases[OF assms] show ?thesis
  proof
    assume "ter_Results r = [] \<and> ter_Summary r = \<lparr>TotalCases = 0, PassedCases = 0, FailedCases = 0,
                                         SkippedCases = 0, PassRate = 0\<rparr> \<and> e \<noteq> None"
    then show ?thesis by simp
  next
    assume "\<exists>w4 rels. ter_Results r = fst (run_cases u taskID w4 [] rels)
             \<and> ter_Summary r = calculateSummary (ter_Results r) \<and> e = None"
    then obtain w4 rels where a: "ter_Results r = fst (run_cases u taskID w4 [] rels)"
      and b: "ter_Summary r = calculateSummary (ter_Results r)" by blast
    have "list_all passed_or_failed (ter_Results r)"
      unfolding a by (rule run_cases_status) simp
    with b calculateSummary_counts[of "ter_Results r"] show ?thesis by simp
  qed
qed

subsection \<open>Durations written by the runner\<close>

text \<open>
  \<^verbatim>\<open>saveTaskReport\<close> writes the duration as \<^verbatim>\<open>%.2fs\<close>, a number with its unit;
  \<^verbatim>\<open>GetTaskStatistics\<close> appends another \<^verbatim>\<open>s\<close> before parsing. The text then ends in the
  unit \<^verbatim>\<open>ss\<close>, which \<^verbatim>\<open>time.ParseDuration\<close> does not know: no report written by the
  runner enters the sum of durations.
\<close>

lemma isDigit_digit_char: "d < 10 \<Longrightarrow> isDigit (digit_char d)"
  by (simp add: isDigit_def digit_char_def)

lemma digits_all_digits: "list_all isDigit (digits n)"
proof (induction n rule: digits.induct)
  case (1 n)
  show ?case
  proof (cases "n < 10")
    case True
    then show ?thesis by (subst digits.simps) (simp add: isDigit_digit_char)
  next
    case False
    with 1 show ?thesis by (subst digits.simps) (simp add: isDigit_digit_char)
  qed
qed

lemma dropWhile_digits:
  assumes "list_all isDigit ds" and "\<not> isDigit c"
  shows "dropWhile isDigit (ds @ c # rest) = c # rest"
  using assms by (induction ds) simp_all

lemma notDigitDot_s: "notDigitDot CHR ''s''" "\<not> isDigit CHR ''s''" "\<not> isDigit CHR ''.''"
  by (simp_all add: notDigitDot_def isDigit_def)

lemma parse_unit_two_decimals_ss:
  assumes ds: "list_all isDigit ds" and ne: "ds \<noteq> []" and a: "isDigit a" and b: "isDigit b"
  shows "parse_unit (ds @ ''.'' @ [a, b] @ ''ss'') = None"
proof -
  let ?s = "ds @ ''.'' @ [a, b] @ ''ss''"
  have hd: "isDigit (hd ?s)" using ds ne by (cases ds) simp_all
  have s1: "dropWhile isDigit ?s = ''.'' @ [a, b] @ ''ss''"
    using dropWhile_digits[OF ds notDigitDot_s(3), of "[a, b] @ ''ss''"] by simp
  have len: "length ?s \<noteq> length (''.'' @ [a, b] @ ''ss'')" using ne by simp
  have s3: "dropWhile isDigit ([a, b] @ ''ss'') = ''ss''"
    using a b notDigitDot_s by simp
  have u: "takeWhile notDigitDot ''ss'' = ''ss''" using notDigitDot_s by simp
  have um: "unitMap ''ss'' = None" by (simp add: unitMap_def)
  show ?thesis
    unfolding parse_unit_def s1 Let_def
    using hd s3 u um by (simp split: option.splits)
qed

lemma Sprintf_2f_shape:
  "\<exists>ds a b. list_all isDigit ds \<and> ds \<noteq> [] \<and> isDigit a \<and> isDigit b
     \<and> Sprintf_2f x = (if x < 0 then ''-'' else []) @ ds @ ''.'' @ [a, b]"
proof -
  define n where "n = nat (let a = \<bar>x\<bar> * 100; f = \<lfloor>a\<rfloor>
                           in if a - of_int f < 1 / 2 then f
                              else if a - of_int f > 1 / 2 then f + 1
                              else if even f then f else f + 1)"
  have "Sprintf_2f x = (if x < 0 then ''-'' else []) @ digits (n div 100) @ ''.''
           @ [digit_char (n div 10 mod 10), digit_char (n mod 10)]"
    by (simp add: Sprintf_2f_def n_def Let_def)
  moreover have "list_all isDigit (digits (n div 100))" by (rule digits_all_digits)
  moreover have "digits (n div 100) \<noteq> []" by (rule digits_not_Nil)
  moreover have "isDigit (digit_char (n div 10 mod 10))" "isDigit (digit_char (n mod 10))"
    by (simp_all add: isDigit_digit_char)
  ultimately show ?thesis by blast
qed

lemma written_duration_never_parses:
  "ParseDuration ((Sprintf_2f x @ ''s'') @ ''s'') = None"
proof -
  from Sprintf_2f_shape[of x] obtain ds a b where
    ds: "list_all isDigit ds" and ne: "ds \<noteq> []" and a: "isDigit a" and b: "isDigit b"
    and sh: "Sprintf_2f x = (if x < 0 then ''-'' else []) @ ds @ ''.'' @ [a, b]" by blast
  let ?s = "ds @ ''.'' @ [a, b] @ ''ss''"
  have pu: "parse_unit ?s = None" by (rule parse_unit_two_decimals_ss[OF ds ne a b])
  have d0: "isDigit (hd ds)" using ds ne by (cases ds) simp_all
  have nz: "?s \<noteq> ''0''" by simp
  have pus: "parse_units 0 ?s = None"
    by (subst parse_units.simps) (simp only: pu option.case if_False nz append_is_Nil_conv, simp)
  have hdd: "hd ds \<noteq> CHR ''-''" "hd ds \<noteq> CHR ''+''"
    using d0 by (auto simp: isDigit_def)
  show ?thesis
  proof (cases "x < 0")
    case True
    then have "(Sprintf_2f x @ ''s'') @ ''s'' = CHR ''-'' # ?s" by (simp add: sh)
    then show ?thesis using pus nz by (simp add: ParseDuration_def Let_def)
  next
    case False
    then have e: "(Sprintf_2f x @ ''s'') @ ''s'' = ?s" by (simp add: sh)
    have "hd ?s = hd ds" using ne by simp
    then show ?thesis unfolding e using pus nz hdd ne
      by (simp add: ParseDuration_def Let_def)
  qed
qed

lemma sum_durations_written:
  assumes "list_all (\<lambda>r. \<exists>x. rep_RunTime r = Sprintf_2f x @ ''s'') reports"
  shows "sum_durations t reports = t"
  using assms
proof (induction reports arbitrary: t)
  case Nil
  show ?case by simp
next
  case (Cons r reports)
  from Cons.prems obtain x where "rep_RunTime r = Sprintf_2f x @ ''s''" by auto
  then have "ParseDuration (rep_RunTime r @ ''s'') = None"
    using written_duration_never_parses[of x] by simp
  with Cons show ?case by simp
qed

lemma avgDuration_written:
  assumes "list_all (\<lambda>r. \<exists>x. rep_RunTime r = Sprintf_2f x @ ''s'') reports"
  shows "avgDuration reports = 0"
  using sum_durations_written[OF assms, of 0] by (simp add: avgDuration_def Duration_Seconds_def)

subsection \<open>The claims on the concrete worlds\<close>

lemma unbound_world_fields:
  "faults unbound_world = []" "testtasks unbound_world = [demo_task]"
  "taskcaserelevances unbound_world = []"
  by (simp_all add: unbound_world_def demo_world_def)

lemma running_world_fields:
  "faults running_world = []" "testtasks running_world = [running_task]"
  "dispatched running_world = []" "logged running_world = []"
  "task_ID running_task = 1" "task_Status running_task = 1"
  by (simp_all add: running_world_def running_task_def demo_world_def demo_task_def)

theorem ExecuteTask_missing_task_aborts_witness:
  "2 \<notin> set (map task_ID (testtasks demo_world))
   \<and> fst (ExecuteTask unmarshal_braces demo_world 2)
        = (None, Some (msg_task_missing @ ErrRecordNotFound))
   \<and> same_tables demo_world (snd (ExecuteTask unmarshal_braces demo_world 2))
   \<and> clock (snd (ExecuteTask unmarshal_braces demo_world 2)) = clock demo_world
   \<and> logged (snd (ExecuteTask unmarshal_braces demo_world 2)) = logged demo_world"
proof -
  have h: "2 \<notin> set (map task_ID (testtasks demo_world))"
    by (simp add: demo_world_fields demo_rows)
  from ExecuteTask_missing_task_aborts[OF h, of unmarshal_braces] h show ?thesis
    by (simp add: demo_world_fields)
qed

theorem calculateSummary_pass_rate_witness:
  "TotalCases (calculateSummary [passed_result, failed_result]) = 2
   \<and> 0 < TotalCases (calculateSummary [passed_result, failed_result])
   \<and> PassRate (calculateSummary [passed_result, failed_result]) = 50
   \<and> TotalCases (calculateSummary []) = 0 \<and> PassRate (calculateSummary []) = 0
   \<and> faults unbound_world = [] \<and> 1 \<in> set (map task_ID (testtasks unbound_world))
   \<and> filter (\<lambda>x. rel_TaskID x = 1) (taskcaserelevances unbound_world) = []
   \<and> (\<exists>r w'. ExecuteTask unmarshal_braces unbound_world 1 = ((Some r, None), w')
           \<and> ter_Summary r = calculateSummary (ter_Results r)
           \<and> TotalCases (ter_Summary r) = 0 \<and> PassRate (ter_Summary r) = 0)"
proof -
  have st: "cer_Status passed_result = ''passed''" "cer_Status failed_result = ''failed''"
    by (simp_all add: passed_result_def failed_result_def)
  have h: "faults unbound_world = []" "1 \<in> set (map task_ID (testtasks unbound_world))"
    "filter (\<lambda>x. rel_TaskID x = 1) (taskcaserelevances unbound_world) = []"
    by (simp_all add: unbound_world_fields demo_rows)
  note a = calculateSummary_pass_rate[of "[passed_result, failed_result]" unmarshal_braces unbound_world 1]
  from a h obtain r w' where e: "ExecuteTask unmarshal_braces unbound_world 1 = ((Some r, None), w')"
    by blast
  note b = calculateSummary_pass_rate[of "[]" unmarshal_braces unbound_world 1 r w']
  from a have a1: "TotalCases (calculateSummary [passed_result, failed_result]) = 2"
    and a2: "PassedCases (calculateSummary [passed_result, failed_result]) = 1"
    by (simp_all add: st)
  from a a1 a2 have a3: "PassRate (calculateSummary [passed_result, failed_result]) = 50" by simp
  from b have b1: "TotalCases (calculateSummary []) = 0" by simp
  with b have b2: "PassRate (calculateSummary []) = 0" by blast
  from b e h have b3: "ter_Summary r = calculateSummary (ter_Results r)
           \<and> TotalCases (ter_Summary r) = 0 \<and> PassRate (ter_Summary r) = 0" by blast
  from a1 a3 b1 b2 h e b3 show ?thesis by auto
qed

theorem batch_persists_single_done_code_witness:
  "faults demo_world = [] \<and> 1 \<in> set (map task_ID (testtasks demo_world))
   \<and> updateTaskStatus demo_world demo_task ''success'' [] = updateTaskStatus demo_world demo_task ''failed'' []
   \<and> (\<exists>t r w' row.
            First_TestTask demo_world 1 = (Inr t, demo_world)
          \<and> ExecuteTask unmarshal_braces demo_world 1 = ((Some r, None), w')
          \<and> (ter_Status r = ''success'' \<or> ter_Status r = ''failed'')
          \<and> (ter_Status r = ''failed'' \<longleftrightarrow> FailedCases (ter_Summary r) > 0)
          \<and> testtasks w' =
                map (\<lambda>x. if task_ID x = 1
                          then t\<lparr>task_Status := 2, task_UpdateTime := clock w'\<rparr> else x)
                    (testtasks demo_world)
          \<and> taskreports w' = taskreports demo_world @ [row]
          \<and> rep_Report row = ''Task executed with status: '' @ ter_Status r)"
proof -
  have h: "faults demo_world = [] \<and> 1 \<in> set (map task_ID (testtasks demo_world))"
    by (simp add: demo_world_fields demo_rows)
  from batch_persists_single_done_code[where ?w0.0 = demo_world and task = demo_task
      and ?m1.0 = "[]" and ?m2.0 = "[]" and w = demo_world and taskID = 1 and u = unmarshal_braces] h
  show ?thesis by blast
qed

theorem task_report_error_equals_failure_witness:
  "fst (db_call demo_world) = None
   \<and> (\<exists>row. taskreports (saveTaskReport demo_world 1 demo_result) = taskreports demo_world @ [row]
            \<and> rep_Error row = FailedCases (ter_Summary demo_result)
            \<and> rep_Failure row = FailedCases (ter_Summary demo_result))
   \<and> faults demo_world = [] \<and> 1 \<in> set (map task_ID (testtasks demo_world))
   \<and> (\<exists>r row. fst (ExecuteTask unmarshal_braces demo_world 1) = (Some r, None)
              \<and> taskreports (snd (ExecuteTask unmarshal_braces demo_world 1)) = taskreports demo_world @ [row]
              \<and> rep_Error row = FailedCases (ter_Summary r)
              \<and> rep_Failure row = FailedCases (ter_Summary r))"
proof -
  have h: "faults demo_world = [] \<and> 1 \<in> set (map task_ID (testtasks demo_world))"
    and d: "fst (db_call demo_world) = None"
    by (simp_all add: demo_world_fields demo_rows db_call_healthy)
  from task_report_error_equals_failure[where ?w0.0 = demo_world and taskID = 1
      and result = demo_result and u = unmarshal_braces and w = demo_world
      and res = "fst (fst (ExecuteTask unmarshal_braces demo_world 1))"
      and err = "snd (fst (ExecuteTask unmarshal_braces demo_world 1))"
      and w' = "snd (ExecuteTask unmarshal_braces demo_world 1)"] h d
  show ?thesis by blast
qed

theorem batch_results_passed_or_failed_witness:
  "\<exists>r e w'. ExecuteTask unmarshal_braces demo_world 1 = ((Some r, e), w')
     \<and> list_all passed_or_failed (ter_Results r)
     \<and> SkippedCases (ter_Summary r) = 0
     \<and> PassedCases (ter_Summary r) + FailedCases (ter_Summary r) = TotalCases (ter_Summary r)"
proof -
  have "faults demo_world = []" "1 \<in> set (map task_ID (testtasks demo_world))"
    by (simp_all add: demo_world_fields demo_rows)
  from ExecuteTask_returns[OF this, of unmarshal_braces] obtain r w' where
    e: "ExecuteTask unmarshal_braces demo_world 1 = ((Some r, None), w')" by blast
  from batch_results_passed_or_failed[OF e] e show ?thesis by blast
qed


text \<open>
  Claim C2, as amended. On a store that answers every call, for a task whose bindings are
  \<open>ra\<close> (its hash resolves to a case whose document is accepted) and \<open>rb\<close> (its hash
  resolves to no case): the batch returns two results, the first passed, the second
  failed, named by the hash and carrying the error ``case does not exist: record not
  found''; the summary is total 2, passed 1, failed 1, skipped 0, pass rate 50; exactly one
  case result row is persisted, the one of the resolved case, whose text gives the status
  \<^verbatim>\<open>passed\<close> and the measured duration, which is 100 milliseconds or longer. The
  unresolved binding is persisted only as a count: the one task report the batch appends
  has 2 tests, 1 passed, and 1 under failure and under error.
\<close>

theorem batch_resolved_and_missing_binding:
  assumes "faults w = []" and "taskID \<in> set (map task_ID (testtasks w))"
    and "filter (\<lambda>x. rel_TaskID x = taskID) (taskcaserelevances w) = [ra, rb]"
    and "First_TestCase_by_hash w (rel_CaseHash ra) = (Inr cA, w)"
    and "First_TestCase w (tc_ID cA) = (Inr cA', w)"
    and "unmarshal (tc_CaseDoc cA') = None"
    and "fst (First_TestCase_by_hash w (rel_CaseHash rb)) = Inl ErrRecordNotFound"
  shows "\<exists>r w' resA resB row report.
           ExecuteTask unmarshal w taskID = ((Some r, None), w')
         \<and> ter_Results r = [resA, resB]
         \<and> cer_CaseID resA = tc_ID cA \<and> cer_Status resA = ''passed''
         \<and> 100000000 \<le> cer_Duration resA
         \<and> cer_CaseName resB = rel_CaseHash rb \<and> cer_Status resB = ''failed''
         \<and> cer_ErrorMsg resB = msg_case_missing @ ErrRecordNotFound
         \<and> ter_Summary r =
              \<lparr>TotalCases = 2, PassedCases = 1, FailedCases = 1, SkippedCases = 0, PassRate = 50\<rparr>
         \<and> ter_Status r = ''failed''
         \<and> caseresults w' = caseresults w @ [row]
         \<and> cr_CaseID row = tc_ID cA \<and> cr_Name row = tc_CaseName cA'
         \<and> cr_Report row = ''Status: passed, Duration: '' @ Duration_String (cer_Duration resA)
         \<and> taskreports w' = taskreports w @ [report]
         \<and> rep_TaskID report = taskID
         \<and> rep_Report report = ''Task executed with status: failed''
         \<and> rep_Tests report = 2 \<and> rep_Passed report = 1
         \<and> rep_Failure report = 1 \<and> rep_Error report = 1 \<and> rep_Skipped report = 0"
  using assms by (rule batch_resolved_then_missing)

theorem batch_resolved_and_missing_binding_witness:
  "faults demo_world = [] \<and> 1 \<in> set (map task_ID (testtasks demo_world))
   \<and> filter (\<lambda>x. rel_TaskID x = 1) (taskcaserelevances demo_world) = [binding_A, binding_B]
   \<and> First_TestCase_by_hash demo_world (rel_CaseHash binding_A) = (Inr demo_case, demo_world)
   \<and> First_TestCase demo_world (tc_ID demo_case) = (Inr demo_case, demo_world)
   \<and> unmarshal_braces (tc_CaseDoc demo_case) = None
   \<and> fst (First_TestCase_by_hash demo_world (rel_CaseHash binding_B)) = Inl ErrRecordNotFound
   \<and> (\<exists>r w' resA resB row report.
           ExecuteTask unmarshal_braces demo_world 1 = ((Some r, None), w')
         \<and> ter_Results r = [resA, resB]
         \<and> cer_CaseID resA = tc_ID demo_case \<and> cer_Status resA = ''passed''
         \<and> 100000000 \<le> cer_Duration resA
         \<and> cer_CaseName resB = rel_CaseHash binding_B \<and> cer_Status resB = ''failed''
         \<and> cer_ErrorMsg resB = msg_case_missing @ ErrRecordNotFound
         \<and> ter_Summary r =
              \<lparr>TotalCases = 2, PassedCases = 1, FailedCases = 1, SkippedCases = 0, PassRate = 50\<rparr>
         \<and> ter_Status r = ''failed''
         \<and> caseresults w' = caseresults demo_world @ [row]
         \<and> cr_CaseID row = tc_ID demo_case \<and> cr_Name row = tc_CaseName demo_case
         \<and> cr_Report row = ''Status: passed, Duration: '' @ Duration_String (cer_Duration resA)
         \<and> taskreports w' = taskreports demo_world @ [report]
         \<and> rep_TaskID report = 1
         \<and> rep_Report report = ''Task executed with status: failed''
         \<and> rep_Tests report = 2 \<and> rep_Passed report = 1
         \<and> rep_Failure report = 1 \<and> rep_Error report = 1 \<and> rep_Skipped report = 0)"
proof -
  have h1: "faults demo_world = []" and h2: "1 \<in> set (map task_ID (testtasks demo_world))"
    and h3: "filter (\<lambda>x. rel_TaskID x = 1) (taskcaserelevances demo_world) = [binding_A, binding_B]"
    and h4: "First_TestCase_by_hash demo_world (rel_CaseHash binding_A) = (Inr demo_case, demo_world)"
    and h5: "First_TestCase demo_world (tc_ID demo_case) = (Inr demo_case, demo_world)"
    and h6: "unmarshal_braces (tc_CaseDoc demo_case) = None"
    and h7: "fst (First_TestCase_by_hash demo_world (rel_CaseHash binding_B)) = Inl ErrRecordNotFound"
    by (simp_all add: demo_world_fields demo_rows demo_First_by_hash_A demo_First_by_hash_B
          demo_First_TestCase unmarshal_braces_def)
  note c = batch_resolved_and_missing_binding[where w = demo_world and taskID = 1
      and ra = binding_A and rb = binding_B and cA = demo_case and cA' = demo_case
      and unmarshal = unmarshal_braces, OF h1 h2 h3 h4 h5 h6 h7]
  from c h1 h2 h3 h4 h5 h6 h7 show ?thesis by (intro conjI)
qed

lemma stats_world_fields:
  "faults stats_world = []" "clock stats_world = 864000000000000"
  "taskreports stats_world = [report_two_seconds, report_unparsable]"
  by (simp_all add: stats_world_def)

lemma stats_rows:
  "rep_RunTime report_two_seconds = ''2''" "rep_RunTime report_unparsable = ''abc''"
  "rep_TaskID report_two_seconds = 1" "rep_TaskID report_unparsable = 1"
  "rep_CreateTime report_two_seconds = 777600000000000"
  "rep_CreateTime report_unparsable = 777600000000000"
  by (simp_all add: report_two_seconds_def report_unparsable_def)

lemma Hour_value: "int Hour = 3600000000000"
  by (simp add: Hour_def Minute_def Second_def Millisecond_def Microsecond_def Nanosecond_def)

lemma stats_in_window:
  "list_all (\<lambda>r. rep_TaskID r = 1
                  \<and> clock stats_world - 7 * 24 * int Hour \<le> rep_CreateTime r
                  \<and> rep_CreateTime r \<le> clock stats_world) (taskreports stats_world)"
  by (simp add: stats_world_fields stats_rows Hour_value)

lemma avgDuration_stats: "avgDuration [report_two_seconds, report_unparsable] = 1"
  by (simp add: avgDuration_def stats_rows ParseDuration_2s ParseDuration_abcs wrap64_def
      Duration_Seconds_def)

lemma avg_over_parsed_stats: "avg_over_parsed [report_two_seconds, report_unparsable] = 2"
  by (simp add: avg_over_parsed_def parsed_durations_def stats_rows ParseDuration_2s
      ParseDuration_abcs Duration_Seconds_def)

text \<open>
  Claim C3 against the code. The report table holds two reports of task 1, both created
  within the last seven days, with the duration texts \<^verbatim>\<open>2\<close> and \<^verbatim>\<open>abc\<close>; the mean over
  the reports whose duration parses, which the claim describes, is 2 seconds.
  \<^verbatim>\<open>GetTaskStatistics\<close> reads none of them: for every store, task and window its result is
  that of a task without reports, average 0 included, because each of its queries names
  the column \<^verbatim>\<open>created_at\<close> and the table has \<^verbatim>\<open>create_time\<close>. Two slips more lie behind
  that one. The loop of lines 272 to 281, given the two reports, divides by the number of
  all of them and arrives at 1. And a duration text as \<^verbatim>\<open>saveTaskReport\<close> writes it ends
  in \<^verbatim>\<open>s\<close> already, so that with the \<^verbatim>\<open>s\<close> the loop appends it never parses.
\<close>

theorem statistics_read_no_report:
  "fst (GetTaskStatistics w taskID days) =
     \<lparr>total_runs = 0, success_runs = 0, failed_runs = 0, success_rate = 0, avg_duration = 0,
      period_days = days\<rparr>
   \<and> list_all (\<lambda>r. rep_TaskID r = 1
                    \<and> clock stats_world - 7 * 24 * int Hour \<le> rep_CreateTime r
                    \<and> rep_CreateTime r \<le> clock stats_world) (taskreports stats_world)
   \<and> avg_over_parsed (taskreports stats_world) = 2
   \<and> avg_duration (fst (GetTaskStatistics stats_world 1 7)) = 0
   \<and> avgDuration (taskreports stats_world) = 1
   \<and> ParseDuration ((Sprintf_2f x @ ''s'') @ ''s'') = None"
proof -
  have "avg_duration (fst (GetTaskStatistics stats_world 1 7)) = 0"
    by (simp only: GetTaskStatistics_zero TaskStatistics.simps)
  moreover have "avg_over_parsed (taskreports stats_world) = 2"
    "avgDuration (taskreports stats_world) = 1"
    by (simp_all only: stats_world_fields avg_over_parsed_stats avgDuration_stats)
  ultimately show ?thesis
    using GetTaskStatistics_zero[of w taskID days] stats_in_window written_duration_never_parses[of x]
    by (intro conjI)
qed

theorem StopTask_state_error_iff_not_running_witness:
  "First_TestTask demo_world 1 = (Inr demo_task, demo_world)
   \<and> task_Status demo_task \<noteq> 1
   \<and> fst (StopTask demo_world 1) = Some msg_not_running
   \<and> testtasks (snd (StopTask demo_world 1)) = testtasks demo_world
   \<and> First_TestTask running_world 1 = (Inr running_task, running_world)
   \<and> task_Status running_task = 1
   \<and> fst (db_call running_world) = None
   \<and> fst (StopTask running_world 1) = None
   \<and> testtasks (snd (StopTask running_world 1)) =
         map (\<lambda>r. if task_ID r = 1
                   then running_task\<lparr>task_Status := 2, task_UpdateTime := clock running_world\<rparr>
                   else r)
             (testtasks running_world)
   \<and> map task_Status (testtasks (snd (StopTask running_world 1))) = [2]
   \<and> caseresults (snd (StopTask running_world 1)) = caseresults running_world
   \<and> taskreports (snd (StopTask running_world 1)) = taskreports running_world"
proof -
  have f1: "First_TestTask demo_world 1 = (Inr demo_task, demo_world)" by (rule demo_First_TestTask)
  have s1: "task_Status demo_task \<noteq> 1" by (simp add: demo_rows)
  have f2: "First_TestTask running_world 1 = (Inr running_task, running_world)"
    by (simp add: First_TestTask_def db_call_healthy running_world_fields)
  have s2: "task_Status running_task = 1" by (simp add: running_world_fields)
  have d2: "fst (db_call running_world) = None" by (simp add: db_call_healthy running_world_fields)
  note a = StopTask_state_error_iff_not_running[of demo_world 1 demo_task demo_world]
  note b = StopTask_state_error_iff_not_running[of running_world 1 running_task running_world]
  from a f1 s1 have a1: "fst (StopTask demo_world 1) = Some msg_not_running" by blast
  with a have a2: "testtasks (snd (StopTask demo_world 1)) = testtasks demo_world" by simp
  from b f2 s2 d2 have b1: "fst (StopTask running_world 1) = None"
    and b2: "testtasks (snd (StopTask running_world 1)) =
         map (\<lambda>r. if task_ID r = 1
                   then running_task\<lparr>task_Status := 2, task_UpdateTime := clock running_world\<rparr>
                   else r)
             (testtasks running_world)" by blast+
  from b2 have b3: "map task_Status (testtasks (snd (StopTask running_world 1))) = [2]"
    by (simp add: running_world_fields)
  from b have b4: "caseresults (snd (StopTask running_world 1)) = caseresults running_world"
    and b5: "taskreports (snd (StopTask running_world 1)) = taskreports running_world" by blast+
  from f1 s1 a1 a2 f2 s2 d2 b1 b2 b3 b4 b5 show ?thesis by (intro conjI)
qed

lemma Sprintf_d_one: "Sprintf_d 1 = ''1''"
  by (simp add: Sprintf_d_def digit_char_simps digits.simps)

text \<open>
  Claim C1, evaluated on a store that reports the task as running (status 1):
  \<^verbatim>\<open>GetTaskStatus\<close> yields the text \<^verbatim>\<open>1\<close>, the due-handler dispatches a batch and logs no
  skip event, and three invocations in a row dispatch three batches.
\<close>

theorem due_handler_dispatches_while_running:
  "map task_Status (testtasks running_world) = [1]
   \<and> fst (GetTaskStatus running_world 1) = Inr ''1''
   \<and> dispatched (executeScheduledTask running_world 1) = [1]
   \<and> map le_message (logged (executeScheduledTask running_world 1))
        = [msg_due_started @ ''1'', ''Getting task status'']
   \<and> dispatched (due_repeatedly 3 running_world 1) = [1, 1, 1]"
proof -
  have f: "First_TestTask running_world 1 = (Inr running_task, running_world)"
    by (simp add: First_TestTask_def db_call_healthy running_world_fields)
  have g: "fst (GetTaskStatus running_world 1) = Inr ''1''"
    unfolding GetTaskStatus_def f by (simp add: Let_def running_world_fields Sprintf_d_one)
  have d1: "dispatched (executeScheduledTask running_world 1) = [1]"
    using executeScheduledTask_dispatches[OF f] by (simp add: running_world_fields)
  have f': "First_TestTask (Logger_LogInfo running_world ''SCHEDULER'' (msg_due_started @ Sprintf_d (int 1))
                 [(''task_id'', VUint 1)]) 1
            = (Inr running_task, Logger_LogInfo running_world ''SCHEDULER'' (msg_due_started @ Sprintf_d (int 1))
                 [(''task_id'', VUint 1)])"
    by (simp add: First_TestTask_def db_call_healthy running_world_fields Logger_LogInfo_def)
  have l: "map le_message (logged (executeScheduledTask running_world 1))
        = [msg_due_started @ ''1'', ''Getting task status'']"
    unfolding executeScheduledTask_def GetTaskStatus_def Let_def f'
    by (simp add: Sprintf_d_not_running utils_LogInfo_def Logger_LogInfo_def running_world_fields
        Sprintf_d_one)
  have dn: "dispatched (due_repeatedly 3 running_world 1) = dispatched running_world @ replicate 3 1"
    by (rule due_repeatedly_dispatches) (simp_all add: running_world_fields)
  from g d1 l dn show ?thesis
    by (simp add: running_world_fields numeral_3_eq_3)
qed

end
